theory Spec2Isabelle
  imports Complex_Main
begin

text \<open>
  A model of the request pipeline of the HTTP client: \<open>CancelToken\<close>,
  \<open>ApiError\<close>, the option merge, the interceptor chains, the transport wrappers,
  \<open>request\<close> with its retries, the public verbs and \<open>all\<close>.

  An asynchronous function is modelled by its result and the list of the events it
  causes, in order. Exceptions and rejected promises are \<open>Inl\<close> of a sum. What the
  platform provides (\<open>fetch\<close>, \<open>JSON\<close>, \<open>URL\<close>, \<open>XMLHttpRequest\<close>) is a
  parameter. Left out: the waiting time of the host throttle, the calls of the progress
  observers, \<open>downloadFile\<close>, keys that are present with the value
  \<open>undefined\<close> (a key is present with a value, or absent),
  the case normalisation of a method name by \<open>Request\<close>, and a cancellation that
  arrives between two attempts of one request (the token of a request is the token as
  it is when the request starts; a cancellation in flight is an answer of the
  transport).
\<close>

section \<open>JavaScript strings and values\<close>

text \<open>
  \<open>String.prototype.includes\<close>, \<open>startsWith\<close> and the decimal rendering of a
  non-negative integer in a template literal.
\<close>

fun startsWith :: "string \<Rightarrow> string \<Rightarrow> bool" where
  "startsWith s [] = True"
| "startsWith [] (c # cs) = False"
| "startsWith (d # ds) (c # cs) = (d = c \<and> startsWith ds cs)"

fun str_includes :: "string \<Rightarrow> string \<Rightarrow> bool" where
  "str_includes [] sub = (sub = [])"
| "str_includes (c # cs) sub = (startsWith (c # cs) sub \<or> str_includes cs sub)"

definition digit_char :: "nat \<Rightarrow> char" where
  "digit_char d = ''0123456789'' ! (d mod 10)"

fun show_nat :: "nat \<Rightarrow> string" where
  "show_nat n = (if n < 10 then [digit_char n] else show_nat (n div 10) @ [digit_char n])"

declare show_nat.simps [simp del]

text \<open>
  The values that can occupy the data slot of a response tuple or the
  \<open>responseData\<close> of an error: \<open>JNull\<close> is JavaScript's \<open>null\<close>; \<open>undefined\<close> is
  \<open>None\<close> of an option type wherever a field may be absent.
\<close>

datatype jsval =
    JNull
  | JBool bool
  | JNum int
  | JStr string
  | JArr "jsval list"
  | JObj "(string \<times> jsval) list"
  | JBlob string
  | JBuffer string
  | JForm "(string \<times> string) list"

section \<open>Errors (ApiError.ts)\<close>

text \<open>
  What a \<open>catch\<close> clause can receive, classified the way the code tests it with
  \<open>instanceof\<close>: a \<open>TypeError\<close>, an \<open>ApiError\<close>, a \<open>DOMException\<close> named
  \<open>AbortError\<close>, any other \<open>Error\<close>, or a thrown value that is not an \<open>Error\<close>
  (its \<open>message\<close> field then holds \<open>String(value)\<close>).
\<close>

datatype err_class = TypeError | ApiError | AbortError | PlainError | NotAnError

record js_error =
  cls :: err_class
  message :: string
  statusCode :: "nat option"
  responseData :: "jsval option"

definition new_ApiError :: "string \<Rightarrow> nat option \<Rightarrow> jsval option \<Rightarrow> js_error" where
  "new_ApiError msg sc rd = \<lparr>cls = ApiError, message = msg, statusCode = sc, responseData = rd\<rparr>"

definition new_Error :: "string \<Rightarrow> js_error" where
  "new_Error msg = \<lparr>cls = PlainError, message = msg, statusCode = None, responseData = None\<rparr>"

definition instanceof_Error :: "js_error \<Rightarrow> bool" where
  "instanceof_Error e = (cls e \<noteq> NotAnError)"

text \<open>\<open>error instanceof Error ? error : new Error(String(error))\<close>\<close>

definition as_Error :: "js_error \<Rightarrow> js_error" where
  "as_Error e = (if instanceof_Error e then e else new_Error (message e))"

definition isTimeoutError :: "js_error \<Rightarrow> bool" where
  "isTimeoutError e = (str_includes (message e) ''timeout'' \<or> str_includes (message e) ''timed out'')"

definition isCancellationError :: "js_error \<Rightarrow> bool" where
  "isCancellationError e = (str_includes (message e) ''cancel'' \<or> str_includes (message e) ''abort'')"

text \<open>Truthiness of an optional number and of an optional string.\<close>

definition truthy_nat :: "nat option \<Rightarrow> bool" where
  "truthy_nat x = (case x of None \<Rightarrow> False | Some n \<Rightarrow> n \<noteq> 0)"

definition truthy_str :: "string option \<Rightarrow> bool" where
  "truthy_str x = (case x of None \<Rightarrow> False | Some s \<Rightarrow> s \<noteq> [])"

section \<open>CancelToken.ts\<close>

text \<open>
  The token's two private fields. Callbacks are opaque to the token: it only stores
  them and calls them with the reason, so a callback is an identifier \<open>'c\<close> and a call
  is an entry \<open>(callback, reason)\<close> of a notification log. A callback does not call
  back into the token.
\<close>

record 'c cancel_token =
  reason :: "string option"
  callbacks :: "'c list"

definition new_CancelToken :: "'c cancel_token" where
  "new_CancelToken = \<lparr>reason = None, callbacks = []\<rparr>"

text \<open>\<open>throwIfRequested\<close>: \<open>Inl\<close> is the thrown ApiError.\<close>

definition throwIfRequested :: "'c cancel_token \<Rightarrow> js_error + unit" where
  "throwIfRequested t =
     (if truthy_str (reason t)
      then Inl (new_ApiError (''Request canceled: '' @ the (reason t)) None
                  (Some (JStr (the (reason t)))))
      else Inr ())"

text \<open>
  \<open>cancel(reason?)\<close>: stores \<open>reason || "Operation canceled by user"\<close>, calls every
  stored callback with the stored reason, empties the callback list. Returns the new
  token state and the calls made, in order.
\<close>

definition cancel :: "string option \<Rightarrow> 'c cancel_token \<Rightarrow> 'c cancel_token \<times> ('c \<times> string) list" where
  "cancel r t =
     (let r' = (if truthy_str r then the r else ''Operation canceled by user'')
      in (\<lparr>reason = Some r', callbacks = []\<rparr>, map (\<lambda>cb. (cb, r')) (callbacks t)))"

text \<open>\<open>register(callback)\<close>: calls at once on a cancelled token, stores otherwise.\<close>

definition register :: "'c \<Rightarrow> 'c cancel_token \<Rightarrow> 'c cancel_token \<times> ('c \<times> string) list" where
  "register cb t =
     (if truthy_str (reason t) then (t, [(cb, the (reason t))])
      else (t\<lparr>callbacks := callbacks t @ [cb]\<rparr>, []))"

definition is_cancelled :: "'c cancel_token \<Rightarrow> bool" where
  "is_cancelled t = truthy_str (reason t)"

section \<open>Requests, responses, options (RequestOptions.ts, response/types.ts)\<close>

text \<open>
  The platform's \<open>Request\<close> and \<open>Response\<close> objects, reduced to what the client
  reads. Reading a response body can fail (a used or broken stream): \<open>Unreadable m\<close>
  is a body whose readers reject with an error of message \<open>m\<close>.
\<close>

record http_request =
  req_url :: string
  req_method :: string
  req_headers :: "string \<rightharpoonup> string"
  req_body :: "jsval option"
  req_signal :: bool

datatype body_stream = Body string | Unreadable string

record http_response =
  status :: nat
  statusText :: string
  contentType :: "string option"
  res_body :: body_stream

datatype response_type = RT_json | RT_text | RT_blob | RT_arrayBuffer | RT_formData

text \<open>
  \<open>RequestOptions\<close>: every field is optional, \<open>None\<close> is an absent key. The field
  \<open>method\<close> of the source is \<open>http_method\<close> here. The two progress observers are
  only tested for presence, so they are \<open>unit option\<close>. A \<open>paramsSerializer\<close>
  returns the query string or throws (\<open>Inl\<close>).
\<close>

record request_options =
  http_method :: "string option"
  body :: "jsval option"
  headers :: "(string \<rightharpoonup> string) option"
  baseUrl :: "string option"
  timeout :: "nat option"
  retries :: "int option"
  retryDelay :: "int option"
  retryStatusCodes :: "nat list option"
  params :: "(string \<times> jsval) list option"
  paramsSerializer :: "((string \<times> jsval) list \<Rightarrow> js_error + string) option"
  responseType :: "response_type option"
  validateStatus :: "(nat \<Rightarrow> bool) option"
  cancelToken :: "nat cancel_token option"
  useXMLHttpRequest :: "bool option"
  onUploadProgress :: "unit option"
  onDownloadProgress :: "unit option"
  withCredentials :: "bool option"

definition no_options :: request_options where
  "no_options = \<lparr>http_method = None, body = None, headers = None, baseUrl = None,
     timeout = None, retries = None, retryDelay = None, retryStatusCodes = None,
     params = None, paramsSerializer = None, responseType = None, validateStatus = None, cancelToken = None,
     useXMLHttpRequest = None, onUploadProgress = None, onDownloadProgress = None,
     withCredentials = None\<rparr>"

text \<open>
  Object spread \<open>{...a, ...b}\<close>, field by field: a key of \<open>b\<close> wins over the same
  key of \<open>a\<close>.
\<close>

definition or_else :: "'a option \<Rightarrow> 'a option \<Rightarrow> 'a option" where
  "or_else b a = (case b of None \<Rightarrow> a | Some v \<Rightarrow> Some v)"

definition spread :: "request_options \<Rightarrow> request_options \<Rightarrow> request_options" where
  "spread a b = \<lparr>
     http_method = or_else (http_method b) (http_method a),
     body = or_else (body b) (body a),
     headers = or_else (headers b) (headers a),
     baseUrl = or_else (baseUrl b) (baseUrl a),
     timeout = or_else (timeout b) (timeout a),
     retries = or_else (retries b) (retries a),
     retryDelay = or_else (retryDelay b) (retryDelay a),
     retryStatusCodes = or_else (retryStatusCodes b) (retryStatusCodes a),
     params = or_else (params b) (params a),
     paramsSerializer = or_else (paramsSerializer b) (paramsSerializer a),
     responseType = or_else (responseType b) (responseType a),
     validateStatus = or_else (validateStatus b) (validateStatus a),
     cancelToken = or_else (cancelToken b) (cancelToken a),
     useXMLHttpRequest = or_else (useXMLHttpRequest b) (useXMLHttpRequest a),
     onUploadProgress = or_else (onUploadProgress b) (onUploadProgress a),
     onDownloadProgress = or_else (onDownloadProgress b) (onDownloadProgress a),
     withCredentials = or_else (withCredentials b) (withCredentials a)\<rparr>"

text \<open>
  The response tuple \<open>[Error | null, T | null]\<close>: the error slot first (\<open>None\<close> is
  \<open>null\<close>), the data slot second (\<open>JNull\<close> is \<open>null\<close>).
\<close>

type_synonym api_response = "js_error option \<times> jsval"

section \<open>The platform\<close>

text \<open>
  What the client calls and does not define. \<open>fetch k r\<close> is what the transport
  answers to request \<open>r\<close> in attempt \<open>k\<close> of a logical request (attempts count from
  0): \<open>Inl\<close> is a rejection. \<open>JSON_parse\<close> returns \<open>Inl m\<close> when it throws a
  SyntaxError of message \<open>m\<close>. \<open>request_init_error\<close> and \<open>hostname_error\<close> say
  when the constructors \<open>new Request(url, init)\<close> and \<open>new URL(url)\<close> throw.
  \<open>url_with_params\<close> is the default serialisation of the parameters into the url,
  \<open>url_set_search\<close> a \<open>URL\<close> object's text after its \<open>search\<close> is set.
  \<open>xhr_setup_error\<close> says when creating, opening or sending the XMLHttpRequest
  throws; \<open>xhr\<close> is the one event an XMLHttpRequest that was sent ends with.
\<close>

datatype xhr_event =
    OnLoad nat string jsval
  | OnError nat
  | OnTimeout nat
  | OnCancel

record platform =
  fetch :: "nat \<Rightarrow> http_request \<Rightarrow> js_error + http_response"
  JSON_parse :: "string \<Rightarrow> string + jsval"
  JSON_stringify :: "jsval \<Rightarrow> string"
  URLSearchParams_toString :: "(string \<times> string) list \<Rightarrow> string"
  formData_of :: "string \<Rightarrow> string + (string \<times> string) list"
  url_with_params :: "string \<Rightarrow> (string \<times> jsval) list \<Rightarrow> string"
  url_set_search :: "string \<Rightarrow> string \<Rightarrow> string"
  request_init_error :: "string \<Rightarrow> request_options \<Rightarrow> js_error option"
  hostname_error :: "string \<Rightarrow> js_error option"
  xhr_setup_error :: "string \<Rightarrow> request_options \<Rightarrow> js_error option"
  xhr :: "nat \<Rightarrow> xhr_event"

section \<open>URL helpers (utils/url.ts)\<close>

definition endsWith :: "string \<Rightarrow> string \<Rightarrow> bool" where
  "endsWith s suffix = startsWith (rev s) (rev suffix)"

definition resolveUrl :: "string \<Rightarrow> string \<Rightarrow> string" where
  "resolveUrl endpoint base =
     (if base = [] then endpoint
      else (if endsWith base ''/'' then base else base @ ''/'')
           @ (if startsWith endpoint ''/'' then tl endpoint else endpoint))"

text \<open>
  \<open>buildUrlWithParams\<close>: the url itself when there are no parameters. With a
  \<open>paramsSerializer\<close>, its string becomes the search part of the \<open>URL\<close> object
  or, when \<open>new URL(url)\<close> throws, is appended by the fallback. A serializer that
  throws is called again by the fallback, outside the \<open>try\<close>, and throws again
  (it is a function of the parameters), so the call throws (\<open>Inl\<close>). Without a
  serializer the default serialisation is the platform's.
\<close>

definition buildUrlWithParams :: "platform \<Rightarrow> string \<Rightarrow> (string \<times> jsval) list option \<Rightarrow> ((string \<times> jsval) list \<Rightarrow> js_error + string) option \<Rightarrow> js_error + string" where
  "buildUrlWithParams w url ps serializer =
     (case ps of None \<Rightarrow> Inr url
      | Some kvs \<Rightarrow>
          if kvs = [] then Inr url
          else (case serializer of
                  None \<Rightarrow> Inr (url_with_params w url kvs)
                | Some f \<Rightarrow>
                    (case f kvs of
                       Inl thrown \<Rightarrow> Inl thrown
                     | Inr serialized \<Rightarrow>
                         if hostname_error w url = None
                         then Inr (url_set_search w url
                                     (if startsWith serialized ''?'' then tl serialized
                                      else serialized))
                         else Inr (url @ (if CHR ''?'' \<notin> set url then ''?'' else ''&'')
                                   @ serialized))))"

section \<open>The client (ApiClient.ts)\<close>

text \<open>
  An interceptor takes a value and returns one, or throws (\<open>Inl\<close>). The client
  holds its base URL, its default options and the three interceptor arrays.
\<close>

record api_client =
  client_baseUrl :: string
  defaultOptions :: request_options
  requestInterceptors :: "(http_request \<Rightarrow> js_error + http_request) list"
  responseInterceptors :: "(http_response \<Rightarrow> js_error + http_response) list"
  errorInterceptors :: "(js_error \<Rightarrow> js_error + js_error) list"

definition default_validateStatus :: "nat \<Rightarrow> bool" where
  "default_validateStatus st = (200 \<le> st \<and> st < 300)"

text \<open>
  The constructor: the built-in defaults with the caller's defaults spread over them,
  and the logging error interceptor (it returns the error it receives).
\<close>

definition builtin_defaults :: request_options where
  "builtin_defaults = no_options\<lparr>
     headers := Some [''Content-Type'' \<mapsto> ''application/json''],
     timeout := Some 10000,
     retries := Some 0,
     retryDelay := Some 1000,
     retryStatusCodes := Some [408, 429, 500, 502, 503, 504],
     responseType := Some RT_json,
     validateStatus := Some default_validateStatus\<rparr>"

definition new_ApiClient :: "string \<Rightarrow> request_options \<Rightarrow> api_client" where
  "new_ApiClient base defaults = \<lparr>
     client_baseUrl = base,
     defaultOptions = spread builtin_defaults defaults,
     requestInterceptors = [],
     responseInterceptors = [],
     errorInterceptors = [\<lambda>error. Inr error]\<rparr>"

definition headers_or_empty :: "(string \<rightharpoonup> string) option \<Rightarrow> (string \<rightharpoonup> string)" where
  "headers_or_empty h = (case h of None \<Rightarrow> Map.empty | Some m \<Rightarrow> m)"

definition mergeOptions :: "api_client \<Rightarrow> request_options \<Rightarrow> request_options" where
  "mergeOptions cl opts =
     (spread (defaultOptions cl) opts)\<lparr>
        headers := Some (headers_or_empty (headers (defaultOptions cl))
                         ++ headers_or_empty (headers opts))\<rparr>"

subsection \<open>Retry classification\<close>

text \<open>\<open>retryStatusCodes?.includes(code)\<close>\<close>

definition codes_include :: "nat list option \<Rightarrow> nat \<Rightarrow> bool" where
  "codes_include codes code = (case codes of None \<Rightarrow> False | Some cs \<Rightarrow> code \<in> set cs)"

definition shouldRetry :: "js_error \<Rightarrow> nat list option \<Rightarrow> bool" where
  "shouldRetry error codes =
     (if cls error = TypeError then True
      else if cls error = ApiError then
        (if truthy_nat (statusCode error) \<and> codes_include codes (the (statusCode error))
         then True
         else if truthy_nat (statusCode error)
            \<and> the (statusCode error) \<ge> 500 \<and> the (statusCode error) < 600
         then True
         else if isTimeoutError error then True
         else False)
      else False)"

subsection \<open>Interceptor chains\<close>

text \<open>
  \<open>for (const interceptor of list) x = await interceptor(x)\<close>: the first
  interceptor that throws ends the loop.
\<close>

fun run_chain :: "('a \<Rightarrow> js_error + 'a) list \<Rightarrow> 'a \<Rightarrow> js_error + 'a" where
  "run_chain [] x = Inr x"
| "run_chain (f # fs) x = (case f x of Inl e \<Rightarrow> Inl e | Inr y \<Rightarrow> run_chain fs y)"

definition applyRequestInterceptors :: "api_client \<Rightarrow> http_request \<Rightarrow> js_error + http_request" where
  "applyRequestInterceptors cl r = run_chain (requestInterceptors cl) r"

definition applyResponseInterceptors :: "api_client \<Rightarrow> http_response \<Rightarrow> js_error + http_response" where
  "applyResponseInterceptors cl r = run_chain (responseInterceptors cl) r"

definition applyErrorInterceptors :: "api_client \<Rightarrow> js_error \<Rightarrow> js_error + js_error" where
  "applyErrorInterceptors cl e = run_chain (errorInterceptors cl) e"

subsection \<open>The transport wrappers (utils/fetch.ts)\<close>

definition show_timeout :: "nat option \<Rightarrow> string" where
  "show_timeout t = (case t of None \<Rightarrow> ''undefined'' | Some n \<Rightarrow> show_nat n)"

definition timed_out :: "nat option \<Rightarrow> js_error" where
  "timed_out t = new_Error (''Request timed out after '' @ show_timeout t @ ''ms'')"

definition fetchWithTimeout :: "platform \<Rightarrow> nat \<Rightarrow> http_request \<Rightarrow> nat option \<Rightarrow> js_error + http_response" where
  "fetchWithTimeout w k r t =
     (if \<not> truthy_nat t then fetch w k r
      else (case fetch w k (r\<lparr>req_signal := True\<rparr>) of
              Inr resp \<Rightarrow> Inr resp
            | Inl error \<Rightarrow> if cls error = AbortError then Inl (timed_out t) else Inl error))"

text \<open>
  \<open>fetchWithProgressTracking\<close>: the calls of the progress observers are left out;
  the result and the translation of an abort are the source's.
\<close>

definition fetchWithProgressTracking :: "platform \<Rightarrow> nat \<Rightarrow> http_request \<Rightarrow> request_options \<Rightarrow> js_error + http_response" where
  "fetchWithProgressTracking w k r opts =
     (case fetch w k (if truthy_nat (timeout opts) then r\<lparr>req_signal := True\<rparr> else r) of
        Inr resp \<Rightarrow> Inr resp
      | Inl error \<Rightarrow> if cls error = AbortError then Inl (timed_out (timeout opts)) else Inl error)"

subsection \<open>Status validation and body decoding\<close>

text \<open>
  The error body of a rejected status: the clone's \<open>json()\<close> when the content type
  includes \<open>application/json\<close>, its \<open>text()\<close> otherwise, the status text when
  that fails.
\<close>

definition errorData :: "platform \<Rightarrow> http_response \<Rightarrow> jsval" where
  "errorData w resp =
     (case res_body resp of
        Unreadable m \<Rightarrow> JStr (statusText resp)
      | Body t \<Rightarrow>
          (if (case contentType resp of None \<Rightarrow> False
               | Some ct \<Rightarrow> ct \<noteq> [] \<and> str_includes ct ''application/json'')
           then (case JSON_parse w t of Inl m \<Rightarrow> JStr (statusText resp) | Inr v \<Rightarrow> v)
           else JStr t))"

definition status_error :: "platform \<Rightarrow> http_response \<Rightarrow> js_error" where
  "status_error w resp =
     new_ApiError (''Request failed with status '' @ show_nat (status resp))
       (Some (status resp)) (Some (errorData w resp))"

definition check_status :: "api_client \<Rightarrow> platform \<Rightarrow> request_options \<Rightarrow> http_response \<Rightarrow> js_error + unit" where
  "check_status cl w mergedOptions resp =
     (case or_else (validateStatus mergedOptions) (validateStatus (defaultOptions cl)) of
        None \<Rightarrow> Inr ()
      | Some valid \<Rightarrow> if \<not> valid (status resp) then Inl (status_error w resp) else Inr ())"

text \<open>
  The \<open>switch\<close> on \<open>responseType\<close> inside its two \<open>try\<close> blocks. The inner
  \<open>catch\<close> builds the parse error with the raw text; the outer \<open>catch\<close> receives
  every error thrown in the switch, that one included, and throws a new ApiError with
  its message and no \<open>responseData\<close>.
\<close>

definition parse_error :: "http_response \<Rightarrow> string \<Rightarrow> string \<Rightarrow> js_error" where
  "parse_error resp m raw =
     new_ApiError (''Failed to parse JSON response: '' @ m) (Some (status resp)) (Some (JStr raw))"

definition processing_error :: "http_response \<Rightarrow> string \<Rightarrow> js_error" where
  "processing_error resp m =
     new_ApiError (''Failed to process response: '' @ m) (Some (status resp)) None"

definition read_switch :: "platform \<Rightarrow> response_type \<Rightarrow> http_response \<Rightarrow> js_error + jsval" where
  "read_switch w rt resp =
     (case res_body resp of
        Unreadable m \<Rightarrow> Inl (new_Error m)
      | Body t \<Rightarrow>
          (case rt of
             RT_text \<Rightarrow> Inr (JStr t)
           | RT_blob \<Rightarrow> Inr (JBlob t)
           | RT_arrayBuffer \<Rightarrow> Inr (JBuffer t)
           | RT_formData \<Rightarrow>
               (case formData_of w t of Inl m \<Rightarrow> Inl (new_Error m) | Inr kvs \<Rightarrow> Inr (JForm kvs))
           | RT_json \<Rightarrow>
               (if t \<noteq> [] then
                  (case JSON_parse w t of
                     Inl m \<Rightarrow> Inl (parse_error resp m t)
                   | Inr v \<Rightarrow> Inr v)
                else Inr JNull)))"

definition decode_body :: "platform \<Rightarrow> response_type \<Rightarrow> http_response \<Rightarrow> js_error + jsval" where
  "decode_body w rt resp =
     (case read_switch w rt resp of
        Inl processingError \<Rightarrow> Inl (processing_error resp (message processingError))
      | Inr v \<Rightarrow> Inr v)"

subsection \<open>The XMLHttpRequest path (utils/xhr.ts)\<close>

definition xhr_read :: "platform \<Rightarrow> response_type \<Rightarrow> string \<Rightarrow> jsval \<Rightarrow> js_error + jsval" where
  "xhr_read w rt responseText response =
     (case rt of
        RT_text \<Rightarrow> Inr (JStr responseText)
      | RT_blob \<Rightarrow> Inr response
      | RT_arrayBuffer \<Rightarrow> Inr response
      | RT_formData \<Rightarrow>
          Inl (new_Error ''formData responseType is not supported with XMLHttpRequest'')
      | RT_json \<Rightarrow>
          (if responseText \<noteq> [] then
             (case JSON_parse w responseText of Inl m \<Rightarrow> Inl (new_Error m) | Inr v \<Rightarrow> Inr v)
           else Inr JNull))"

definition xhr_onload :: "platform \<Rightarrow> request_options \<Rightarrow> nat \<Rightarrow> string \<Rightarrow> jsval \<Rightarrow> api_response" where
  "xhr_onload w opts st responseText response =
     (case xhr_read w (case responseType opts of None \<Rightarrow> RT_json | Some rt \<Rightarrow> rt)
             responseText response of
        Inl error \<Rightarrow> (Some (as_Error error), JNull)
      | Inr xhr_data \<Rightarrow>
          (if \<not> (case validateStatus opts of None \<Rightarrow> default_validateStatus | Some v \<Rightarrow> v) st
           then (Some (new_ApiError (''Request failed with status '' @ show_nat st)
                         (Some st) (Some xhr_data)), JNull)
           else (None, xhr_data)))"

text \<open>
  The tuple of the first handler that fires; the cancellation handler reads the token's
  reason at that moment.
\<close>

definition xhr_settled :: "platform \<Rightarrow> nat \<Rightarrow> request_options \<Rightarrow> api_response" where
  "xhr_settled w k opts =
     (case xhr w k of
        OnLoad st responseText response \<Rightarrow> xhr_onload w opts st responseText response
      | OnError st \<Rightarrow> (Some (new_ApiError ''Network error occurred'' (Some st) None), JNull)
      | OnTimeout st \<Rightarrow>
          (Some (new_ApiError (''Request timed out after '' @ show_timeout (timeout opts) @ ''ms'')
                   (Some st) None), JNull)
      | OnCancel \<Rightarrow>
          (Some (new_ApiError ''Request canceled'' None
                   (case cancelToken opts of None \<Rightarrow> None
                    | Some tok \<Rightarrow> map_option JStr (reason tok))), JNull))"

text \<open>
  \<open>requestWithXHR\<close> returns a promise: it rejects (\<open>Inl\<close>) when the executor
  throws while it creates, opens or sends the XMLHttpRequest, and resolves with the
  tuple of the first handler otherwise.
\<close>

definition requestWithXHR :: "platform \<Rightarrow> nat \<Rightarrow> string \<Rightarrow> request_options \<Rightarrow> js_error + api_response" where
  "requestWithXHR w k url opts =
     (case xhr_setup_error w url opts of
        Some thrown \<Rightarrow> Inl thrown
      | None \<Rightarrow> Inr (xhr_settled w k opts))"

subsection \<open>One attempt: the \<open>try\<close> block of \<open>request\<close>\<close>

text \<open>
  What a logical request does that its caller or the transport can observe, in order:
  a transport call, a call on the XMLHttpRequest path, a backoff wait (milliseconds
  handed to \<open>setTimeout\<close>), and a run of the error interceptor chain on an error.
\<close>

datatype event =
    Dispatched http_request
  | XhrSent string
  | Waited rat
  | ErrorChain js_error

definition new_Request :: "platform \<Rightarrow> string \<Rightarrow> request_options \<Rightarrow> js_error + http_request" where
  "new_Request w url init =
     (case request_init_error w url init of
        Some e \<Rightarrow> Inl e
      | None \<Rightarrow> Inr \<lparr>req_url = url,
                      req_method = (case http_method init of None \<Rightarrow> ''GET'' | Some m \<Rightarrow> m),
                      req_headers = headers_or_empty (headers init),
                      req_body = body init,
                      req_signal = False\<rparr>)"

definition cancel_check :: "request_options \<Rightarrow> js_error + unit" where
  "cancel_check mergedOptions =
     (case cancelToken mergedOptions of None \<Rightarrow> Inr () | Some tok \<Rightarrow> throwIfRequested tok)"

definition xhr_path :: "request_options \<Rightarrow> bool" where
  "xhr_path mergedOptions =
     (useXMLHttpRequest mergedOptions = Some True
      \<and> (onUploadProgress mergedOptions = Some () \<or> onDownloadProgress mergedOptions = Some ()))"

text \<open>
  From the Request object to the transport call: the request interceptors, the abort
  signal of a cancel token, and, for GET, the host throttle. The throttle only delays
  the call; what can fail in it is \<open>new URL(url)\<close>.
\<close>

definition before_fetch :: "api_client \<Rightarrow> platform \<Rightarrow> string \<Rightarrow> request_options \<Rightarrow> js_error + http_request" where
  "before_fetch cl w url mergedOptions =
     (case new_Request w url mergedOptions of
        Inl e \<Rightarrow> Inl e
      | Inr request0 \<Rightarrow>
          (case applyRequestInterceptors cl request0 of
             Inl e \<Rightarrow> Inl e
           | Inr request1 \<Rightarrow>
               (case (if http_method mergedOptions = Some ''GET'' then hostname_error w url else None) of
                  Some e \<Rightarrow> Inl e
                | None \<Rightarrow> Inr (if cancelToken mergedOptions = None then request1
                               else request1\<lparr>req_signal := True\<rparr>))))"

definition do_fetch :: "platform \<Rightarrow> nat \<Rightarrow> request_options \<Rightarrow> http_request \<Rightarrow> js_error + http_response" where
  "do_fetch w k mergedOptions r =
     (if onUploadProgress mergedOptions = Some () \<or> onDownloadProgress mergedOptions = Some ()
      then fetchWithProgressTracking w k r mergedOptions
      else fetchWithTimeout w k r (timeout mergedOptions))"

definition after_fetch :: "api_client \<Rightarrow> platform \<Rightarrow> request_options \<Rightarrow> http_response \<Rightarrow> js_error + jsval" where
  "after_fetch cl w mergedOptions response0 =
     (case applyResponseInterceptors cl response0 of
        Inl e \<Rightarrow> Inl e
      | Inr response \<Rightarrow>
          (case check_status cl w mergedOptions response of
             Inl e \<Rightarrow> Inl e
           | Inr u \<Rightarrow>
               decode_body w (case responseType mergedOptions of None \<Rightarrow> RT_json | Some rt \<Rightarrow> rt)
                 response))"

text \<open>
  The \<open>try\<close> block: \<open>Inl e\<close> is the error that reaches the \<open>catch\<close> clause,
  \<open>Inr p\<close> the promise the block returns. The promise of \<open>requestWithXHR\<close> is
  returned without \<open>await\<close>, so when it rejects (\<open>Inr (Inl e)\<close>) the
  \<open>catch\<close> clause does not see the error and \<open>request\<close> rejects with it.
  \<open>return [null, responseData]\<close> is \<open>Inr (Inr (None, decoded))\<close>.
\<close>

definition tryBlock :: "api_client \<Rightarrow> platform \<Rightarrow> nat \<Rightarrow> string \<Rightarrow> request_options \<Rightarrow> (js_error + (js_error + api_response)) \<times> event list" where
  "tryBlock cl w k url mergedOptions =
     (case cancel_check mergedOptions of
        Inl e \<Rightarrow> (Inl e, [])
      | Inr u \<Rightarrow>
          (if xhr_path mergedOptions
           then (Inr (requestWithXHR w k url mergedOptions), [XhrSent url])
           else (case before_fetch cl w url mergedOptions of
                   Inl e \<Rightarrow> (Inl e, [])
                 | Inr r \<Rightarrow>
                     (case do_fetch w k mergedOptions r of
                        Inl e \<Rightarrow> (Inl e, [Dispatched r])
                      | Inr response0 \<Rightarrow>
                          (case after_fetch cl w mergedOptions response0 of
                             Inl e \<Rightarrow> (Inl e, [Dispatched r])
                           | Inr decoded \<Rightarrow> (Inr (Inr (None, decoded)), [Dispatched r]))))))"

subsection \<open>\<open>request\<close> and \<open>retryRequest\<close>\<close>

definition num_or_0 :: "int option \<Rightarrow> int" where
  "num_or_0 x = (case x of None \<Rightarrow> 0 | Some n \<Rightarrow> n)"

definition truthy_int :: "int option \<Rightarrow> bool" where
  "truthy_int x = (case x of None \<Rightarrow> False | Some n \<Rightarrow> n \<noteq> 0)"

text \<open>\<open>Math.pow(2, e)\<close> for an integer exponent, as a rational.\<close>

definition pow2 :: "int \<Rightarrow> rat" where
  "pow2 e = (if 0 \<le> e then 2 ^ nat e else 1 / 2 ^ nat (- e))"

definition retry_delay :: "api_client \<Rightarrow> request_options \<Rightarrow> int" where
  "retry_delay cl opts =
     (if truthy_int (retryDelay opts) then the (retryDelay opts)
      else if truthy_int (retryDelay (defaultOptions cl)) then the (retryDelay (defaultOptions cl))
      else 1000)"

definition adjustedDelay :: "api_client \<Rightarrow> request_options \<Rightarrow> int \<Rightarrow> rat" where
  "adjustedDelay cl opts retriesLeft =
     of_int (retry_delay cl opts) * pow2 (num_or_0 (retries (defaultOptions cl)) - retriesLeft)"

definition request_url :: "api_client \<Rightarrow> platform \<Rightarrow> string \<Rightarrow> request_options \<Rightarrow> js_error + string" where
  "request_url cl w endpoint mergedOptions =
     buildUrlWithParams w
       (resolveUrl endpoint
          (if truthy_str (baseUrl mergedOptions) then the (baseUrl mergedOptions)
           else client_baseUrl cl))
       (params mergedOptions) (paramsSerializer mergedOptions)"

text \<open>
  The result of \<open>request\<close> is \<open>Inr\<close> of the tuple its promise resolves with, or
  \<open>Inl\<close> of the error it rejects with, and the events of all its attempts. It
  rejects when the url is built (before the \<open>try\<close> block) and the serializer
  throws, when the promise returned from the \<open>try\<close> block rejects, and when an
  error interceptor throws inside the \<open>catch\<close> clause. \<open>k\<close> numbers the attempt.
\<close>

function request :: "api_client \<Rightarrow> platform \<Rightarrow> nat \<Rightarrow> string \<Rightarrow> request_options \<Rightarrow> (js_error + api_response) \<times> event list"
  and retryRequest :: "api_client \<Rightarrow> platform \<Rightarrow> nat \<Rightarrow> string \<Rightarrow> request_options \<Rightarrow> int \<Rightarrow> (js_error + api_response) \<times> event list"
where
  "request cl w k endpoint opts =
     (case request_url cl w endpoint (mergeOptions cl opts) of
        Inl thrown \<Rightarrow> (Inl thrown, [])
      | Inr url \<Rightarrow>
     (case tryBlock cl w k url (mergeOptions cl opts) of
        (Inr returned, tr) \<Rightarrow> (returned, tr)
      | (Inl error, tr) \<Rightarrow>
          (if num_or_0 (retries (mergeOptions cl opts)) > 0
              \<and> shouldRetry error (retryStatusCodes (mergeOptions cl opts))
           then (case retryRequest cl w k endpoint opts (num_or_0 (retries (mergeOptions cl opts))) of
                   (res, tr') \<Rightarrow> (res, tr @ tr'))
           else (case applyErrorInterceptors cl (as_Error error) of
                   Inl thrown \<Rightarrow> (Inl thrown, tr @ [ErrorChain (as_Error error)])
                 | Inr processedError \<Rightarrow>
                     (Inr (Some processedError, JNull), tr @ [ErrorChain (as_Error error)])))))"
| "retryRequest cl w k endpoint opts retriesLeft =
     (case request cl w (Suc k) endpoint (opts\<lparr>retries := Some (retriesLeft - 1)\<rparr>) of
        (res, tr) \<Rightarrow> (res, Waited (adjustedDelay cl opts retriesLeft) # tr))"
  by pat_completeness auto
termination
  by (relation "measure (\<lambda>x. case x of
        Inl (cl, w, k, endpoint, opts) \<Rightarrow> 2 * nat (num_or_0 (retries (mergeOptions cl opts))) + 1
      | Inr (cl, w, k, endpoint, opts, retriesLeft) \<Rightarrow> 2 * nat (retriesLeft - 1) + 2)")
     (auto simp: mergeOptions_def spread_def or_else_def num_or_0_def)

declare request.simps [simp del] retryRequest.simps [simp del]

subsection \<open>The public operations\<close>

text \<open>
  Each verb spreads the caller's options after its own fields and starts the pipeline
  at attempt 0. \<open>data\<close> of \<open>post\<close>, \<open>put\<close> and \<open>patch\<close> is \<open>None\<close> when
  the argument is \<open>undefined\<close>.
\<close>

definition get_options :: "request_options \<Rightarrow> request_options" where
  "get_options opts = spread (no_options\<lparr>http_method := Some ''GET''\<rparr>) opts"

definition body_options :: "platform \<Rightarrow> string \<Rightarrow> jsval option \<Rightarrow> request_options \<Rightarrow> request_options" where
  "body_options w verb payload opts =
     spread (no_options\<lparr>http_method := Some verb,
                         body := map_option (\<lambda>d. JStr (JSON_stringify w d)) payload\<rparr>) opts"

definition get :: "api_client \<Rightarrow> platform \<Rightarrow> string \<Rightarrow> request_options \<Rightarrow> (js_error + api_response) \<times> event list" where
  "get cl w endpoint opts = request cl w 0 endpoint (get_options opts)"

definition post :: "api_client \<Rightarrow> platform \<Rightarrow> string \<Rightarrow> jsval option \<Rightarrow> request_options \<Rightarrow> (js_error + api_response) \<times> event list" where
  "post cl w endpoint payload opts = request cl w 0 endpoint (body_options w ''POST'' payload opts)"

definition put :: "api_client \<Rightarrow> platform \<Rightarrow> string \<Rightarrow> jsval option \<Rightarrow> request_options \<Rightarrow> (js_error + api_response) \<times> event list" where
  "put cl w endpoint payload opts = request cl w 0 endpoint (body_options w ''PUT'' payload opts)"

definition patch :: "api_client \<Rightarrow> platform \<Rightarrow> string \<Rightarrow> jsval option \<Rightarrow> request_options \<Rightarrow> (js_error + api_response) \<times> event list" where
  "patch cl w endpoint payload opts = request cl w 0 endpoint (body_options w ''PATCH'' payload opts)"

definition delete :: "api_client \<Rightarrow> platform \<Rightarrow> string \<Rightarrow> request_options \<Rightarrow> (js_error + api_response) \<times> event list" where
  "delete cl w endpoint opts =
     request cl w 0 endpoint (spread (no_options\<lparr>http_method := Some ''DELETE''\<rparr>) opts)"

definition head :: "api_client \<Rightarrow> platform \<Rightarrow> string \<Rightarrow> request_options \<Rightarrow> (js_error + api_response) \<times> event list" where
  "head cl w endpoint opts =
     request cl w 0 endpoint (spread (no_options\<lparr>http_method := Some ''HEAD''\<rparr>) opts)"

definition options :: "api_client \<Rightarrow> platform \<Rightarrow> string \<Rightarrow> request_options \<Rightarrow> (js_error + api_response) \<times> event list" where
  "options cl w endpoint opts =
     request cl w 0 endpoint (spread (no_options\<lparr>http_method := Some ''OPTIONS''\<rparr>) opts)"

definition postForm :: "api_client \<Rightarrow> platform \<Rightarrow> string \<Rightarrow> (string \<times> string) list \<Rightarrow> request_options \<Rightarrow> (js_error + api_response) \<times> event list" where
  "postForm cl w endpoint formData opts =
     request cl w 0 endpoint
       (spread (no_options\<lparr>http_method := Some ''POST'', body := Some (JForm formData)\<rparr>)
          (opts\<lparr>headers := Some ((headers_or_empty (headers opts))(''Content-Type'' := None))\<rparr>))"

definition postUrlEncoded :: "api_client \<Rightarrow> platform \<Rightarrow> string \<Rightarrow> (string \<times> string) list \<Rightarrow> request_options \<Rightarrow> (js_error + api_response) \<times> event list" where
  "postUrlEncoded cl w endpoint kvs opts =
     request cl w 0 endpoint
       (spread (no_options\<lparr>
                  http_method := Some ''POST'',
                  headers := Some ([''Content-Type'' \<mapsto> ''application/x-www-form-urlencoded'']
                                   ++ headers_or_empty (headers opts)),
                  body := Some (JStr (URLSearchParams_toString w kvs))\<rparr>) opts)"

text \<open>A call of any of the nine operations.\<close>

datatype invocation =
    Get string request_options
  | Post string "jsval option" request_options
  | Put string "jsval option" request_options
  | Patch string "jsval option" request_options
  | Delete string request_options
  | Head string request_options
  | Options string request_options
  | PostForm string "(string \<times> string) list" request_options
  | PostUrlEncoded string "(string \<times> string) list" request_options

fun invoke :: "api_client \<Rightarrow> platform \<Rightarrow> invocation \<Rightarrow> (js_error + api_response) \<times> event list" where
  "invoke cl w (Get e opts) = get cl w e opts"
| "invoke cl w (Post e d opts) = post cl w e d opts"
| "invoke cl w (Put e d opts) = put cl w e d opts"
| "invoke cl w (Patch e d opts) = patch cl w e d opts"
| "invoke cl w (Delete e opts) = delete cl w e opts"
| "invoke cl w (Head e opts) = head cl w e opts"
| "invoke cl w (Options e opts) = options cl w e opts"
| "invoke cl w (PostForm e f opts) = postForm cl w e f opts"
| "invoke cl w (PostUrlEncoded e kvs opts) = postUrlEncoded cl w e kvs opts"

subsection \<open>\<open>all\<close>\<close>

text \<open>
  What one request function of the list does when \<open>all\<close> calls it: it throws
  before returning a promise, or its promise rejects, or its promise resolves with a
  tuple.
\<close>

datatype settled = Throws js_error | Rejects js_error | Resolves api_response

fun join :: "string \<Rightarrow> string list \<Rightarrow> string" where
  "join sep [] = []"
| "join sep [x] = x"
| "join sep (x # y # ys) = x @ sep @ join sep (y # ys)"

text \<open>\<open>request().catch(error => [error instanceof Error ? error : new Error(String(error)), null])\<close>\<close>

fun caught :: "settled \<Rightarrow> api_response" where
  "caught (Resolves t) = t"
| "caught (Rejects e) = (Some (as_Error e), JNull)"
| "caught (Throws e) = (Some (as_Error e), JNull)"

fun first_throw :: "settled list \<Rightarrow> js_error option" where
  "first_throw [] = None"
| "first_throw (Throws e # rs) = Some e"
| "first_throw (r # rs) = first_throw rs"

definition error_line :: "nat \<Rightarrow> js_error \<Rightarrow> string" where
  "error_line index err =
     ''Request '' @ show_nat index @ '': ''
       @ (if message err \<noteq> [] then message err else ''Unknown error'')"

definition combinedMessage :: "js_error list \<Rightarrow> string" where
  "combinedMessage errors =
     join ''; '' (map (\<lambda>(index, err). error_line index err) (zip [0..<length errors] errors))"

definition all :: "settled list \<Rightarrow> api_response" where
  "all requests =
     (case first_throw requests of
        Some error \<Rightarrow> (Some (as_Error error), JNull)
      | None \<Rightarrow>
          (let results = map caught requests;
               errors = map (\<lambda>t. the (fst t)) (filter (\<lambda>t. fst t \<noteq> None) results)
           in if length errors > 0 then
                (if length errors > 1
                 then (Some (new_ApiError (''Multiple requests failed: '' @ combinedMessage errors)
                               None None), JNull)
                 else (Some (hd errors), JNull))
              else (None, JArr (map snd results))))"

subsection \<open>Names for the parts of \<open>request\<close>\<close>

text \<open>
  The attempt of a call, the test that sends its error to \<open>retryRequest\<close>, the
  options and the wait of the retry, and the rest of the \<open>catch\<close> clause. An
  attempt ends in \<open>Inl e\<close> when \<open>e\<close> reaches the \<open>catch\<close> clause and in
  \<open>Inr p\<close> when the call ends with \<open>p\<close> without entering it (the url builder
  threw, or the \<open>try\<close> block returned).
\<close>

definition attempt :: "api_client \<Rightarrow> platform \<Rightarrow> nat \<Rightarrow> string \<Rightarrow> request_options \<Rightarrow> (js_error + (js_error + api_response)) \<times> event list" where
  "attempt cl w k endpoint opts =
     (case request_url cl w endpoint (mergeOptions cl opts) of
        Inl thrown \<Rightarrow> (Inr (Inl thrown), [])
      | Inr url \<Rightarrow> tryBlock cl w k url (mergeOptions cl opts))"

definition will_retry :: "api_client \<Rightarrow> request_options \<Rightarrow> js_error \<Rightarrow> bool" where
  "will_retry cl opts error =
     (num_or_0 (retries (mergeOptions cl opts)) > 0
      \<and> shouldRetry error (retryStatusCodes (mergeOptions cl opts)))"

definition next_options :: "api_client \<Rightarrow> request_options \<Rightarrow> request_options" where
  "next_options cl opts = opts\<lparr>retries := Some (num_or_0 (retries (mergeOptions cl opts)) - 1)\<rparr>"

definition backoff :: "api_client \<Rightarrow> request_options \<Rightarrow> rat" where
  "backoff cl opts = adjustedDelay cl opts (num_or_0 (retries (mergeOptions cl opts)))"

definition chain_result :: "api_client \<Rightarrow> js_error \<Rightarrow> js_error + api_response" where
  "chain_result cl e =
     (case applyErrorInterceptors cl e of
        Inl thrown \<Rightarrow> Inl thrown
      | Inr processedError \<Rightarrow> Inr (Some processedError, JNull))"

definition catch_terminal :: "api_client \<Rightarrow> js_error \<Rightarrow> event list \<Rightarrow> (js_error + api_response) \<times> event list" where
  "catch_terminal cl error tr = (chain_result cl (as_Error error), tr @ [ErrorChain (as_Error error)])"

text \<open>
  The last attempt of a logical request: the first attempt that does not send its
  error to \<open>retryRequest\<close>. It is returned with the options it ran with: \<open>Inl e\<close>
  when it threw \<open>e\<close> into the \<open>catch\<close> clause and \<open>e\<close> was not retried,
  \<open>Inr p\<close> when the call ended with \<open>p\<close> without entering the clause.
\<close>

function final_attempt :: "api_client \<Rightarrow> platform \<Rightarrow> nat \<Rightarrow> string \<Rightarrow> request_options \<Rightarrow> (js_error + (js_error + api_response)) \<times> request_options" where
  "final_attempt cl w k endpoint opts =
     (case attempt cl w k endpoint opts of
        (Inl error, tr) \<Rightarrow>
          if will_retry cl opts error
          then final_attempt cl w (Suc k) endpoint (next_options cl opts)
          else (Inl error, opts)
      | (Inr returned, tr) \<Rightarrow> (Inr returned, opts))"
  by pat_completeness auto
termination
  by (relation "measure (\<lambda>(cl, w, k, endpoint, opts).
        nat (num_or_0 (retries (mergeOptions cl opts))))")
     (auto simp: will_retry_def next_options_def mergeOptions_def spread_def or_else_def
        num_or_0_def)

declare final_attempt.simps [simp del]

section \<open>What the claims speak of\<close>

text \<open>The two slots of a tuple.\<close>

definition exactly_one_populated :: "api_response \<Rightarrow> bool" where
  "exactly_one_populated t = ((fst t \<noteq> None) \<noteq> (snd t \<noteq> JNull))"

text \<open>
  A success with the data \<open>d\<close> under merged options: the transport answered some
  attempt, and the answer passed the response interceptors, the status validation and
  the decoding, which gave \<open>d\<close>; on the XMLHttpRequest path, the load handler
  read \<open>d\<close> and accepted the status.
\<close>

definition success_with :: "api_client \<Rightarrow> platform \<Rightarrow> request_options \<Rightarrow> jsval \<Rightarrow> bool" where
  "success_with cl w mergedOptions d =
     (if xhr_path mergedOptions
      then (\<exists>k st responseText response.
              xhr w k = OnLoad st responseText response
              \<and> xhr_onload w mergedOptions st responseText response = (None, d))
      else (\<exists>k r response0.
              do_fetch w k mergedOptions r = Inr response0
              \<and> after_fetch cl w mergedOptions response0 = Inr d))"

text \<open>The endpoint and the options an operation hands to \<open>request\<close>.\<close>

fun invocation_endpoint :: "invocation \<Rightarrow> string" where
  "invocation_endpoint (Get e opts) = e"
| "invocation_endpoint (Post e d opts) = e"
| "invocation_endpoint (Put e d opts) = e"
| "invocation_endpoint (Patch e d opts) = e"
| "invocation_endpoint (Delete e opts) = e"
| "invocation_endpoint (Head e opts) = e"
| "invocation_endpoint (Options e opts) = e"
| "invocation_endpoint (PostForm e f opts) = e"
| "invocation_endpoint (PostUrlEncoded e kvs opts) = e"

definition invocation_options :: "platform \<Rightarrow> invocation \<Rightarrow> request_options" where
  "invocation_options w call =
     (case call of
        Get e opts \<Rightarrow> get_options opts
      | Post e d opts \<Rightarrow> body_options w ''POST'' d opts
      | Put e d opts \<Rightarrow> body_options w ''PUT'' d opts
      | Patch e d opts \<Rightarrow> body_options w ''PATCH'' d opts
      | Delete e opts \<Rightarrow> spread (no_options\<lparr>http_method := Some ''DELETE''\<rparr>) opts
      | Head e opts \<Rightarrow> spread (no_options\<lparr>http_method := Some ''HEAD''\<rparr>) opts
      | Options e opts \<Rightarrow> spread (no_options\<lparr>http_method := Some ''OPTIONS''\<rparr>) opts
      | PostForm e f opts \<Rightarrow>
          spread (no_options\<lparr>http_method := Some ''POST'', body := Some (JForm f)\<rparr>)
            (opts\<lparr>headers := Some ((headers_or_empty (headers opts))(''Content-Type'' := None))\<rparr>)
      | PostUrlEncoded e kvs opts \<Rightarrow>
          spread (no_options\<lparr>
                    http_method := Some ''POST'',
                    headers := Some ([''Content-Type'' \<mapsto> ''application/x-www-form-urlencoded'']
                                     ++ headers_or_empty (headers opts)),
                    body := Some (JStr (URLSearchParams_toString w kvs))\<rparr>) opts)"

text \<open>The merged options an operation runs under.\<close>

definition merged_options :: "api_client \<Rightarrow> platform \<Rightarrow> invocation \<Rightarrow> request_options" where
  "merged_options cl w call = mergeOptions cl (invocation_options w call)"

text \<open>Runs of the error interceptor chain in a list of events.\<close>

fun is_ErrorChain :: "event \<Rightarrow> bool" where
  "is_ErrorChain (ErrorChain e) = True"
| "is_ErrorChain ev = False"

definition error_chain_runs :: "event list \<Rightarrow> nat" where
  "error_chain_runs tr = length (filter is_ErrorChain tr)"

text \<open>
  How the result and the events \<open>r\<close> of a logical request stand to its last attempt.
  When the last attempt threw \<open>e\<close> into the \<open>catch\<close> clause, \<open>e\<close> was not
  to be retried (the budget was used up or \<open>shouldRetry\<close> rejected it), the error
  chain ran exactly once, as the last event, on \<open>e\<close>, and the request ends with what
  the chain made of \<open>e\<close>. When the call ended without entering the clause, the
  chain never ran and the request ends as the call did.
\<close>

definition chain_on_last_attempt :: "api_client \<Rightarrow> (js_error + (js_error + api_response)) \<times> request_options \<Rightarrow> (js_error + api_response) \<times> event list \<Rightarrow> bool" where
  "chain_on_last_attempt cl fin r =
     (case fin of
        (Inl e, last_opts) \<Rightarrow>
          \<not> will_retry cl last_opts e
          \<and> error_chain_runs (snd r) = 1
          \<and> last (snd r) = ErrorChain (as_Error e)
          \<and> fst r = chain_result cl (as_Error e)
      | (Inr returned, last_opts) \<Rightarrow>
          error_chain_runs (snd r) = 0 \<and> fst r = returned)"

text \<open>
  What the claim on the error chain says of a call that ends in a tuple with an error:
  the chain ran exactly once.
\<close>

definition failed_with_one_run :: "(js_error + api_response) \<times> event list \<Rightarrow> bool" where
  "failed_with_one_run r =
     (case fst r of
        Inr (Some e, d) \<Rightarrow> error_chain_runs (snd r) = 1
      | other \<Rightarrow> True)"

text \<open>
  The backoff delay in the words of the specification: \<open>retryDelay * 2^k\<close> for the
  wait after \<open>k\<close> attempts already consumed.
\<close>

definition spec_backoff :: "int \<Rightarrow> nat \<Rightarrow> rat" where
  "spec_backoff delay k = of_int delay * 2 ^ k"

text \<open>The failures of a list of tuples with their indices in the list.\<close>

definition indexed_failures :: "api_response list \<Rightarrow> (nat \<times> js_error) list" where
  "indexed_failures results =
     map (\<lambda>(index, t). (index, the (fst t)))
       (filter (\<lambda>(index, t). fst t \<noteq> None) (zip [0..<length results] results))"

text \<open>The events that reach a transport.\<close>

fun is_transport :: "event \<Rightarrow> bool" where
  "is_transport (Dispatched r) = True"
| "is_transport (XhrSent u) = True"
| "is_transport ev = False"



section \<open>The interceptor arrays as shared objects\<close>

text \<open>
  \<open>addRequestInterceptor\<close> pushes onto the array the client holds; the function
  it returns, and \<open>clearInterceptors\<close>, make the client hold a new array and leave
  the old one as it is. A \<open>for ... of\<close> loop that is suspended at an \<open>await\<close>
  keeps the array it started on. So the arrays live in a store, an address is an
  index into it, and a running loop is a pair of an address and the next position.
  Interceptors are compared by identity (\<open>i !== interceptor\<close>), so an interceptor
  is an identifier \<open>'i\<close>. The response and error arrays are handled by the same code.
\<close>

record 'i interceptor_store =
  arrays :: "'i list list"
  current :: nat
  running :: "(nat \<times> nat) list"
  invoked :: "(nat \<times> 'i) list"

definition new_store :: "'i interceptor_store" where
  "new_store = \<lparr>arrays = [[]], current = 0, running = [], invoked = []\<rparr>"

definition addRequestInterceptor :: "'i \<Rightarrow> 'i interceptor_store \<Rightarrow> 'i interceptor_store" where
  "addRequestInterceptor i s =
     s\<lparr>arrays := (arrays s)[current s := arrays s ! current s @ [i]]\<rparr>"

text \<open>The function returned by \<open>addRequestInterceptor(i)\<close>.\<close>

definition removeInterceptor :: "'i \<Rightarrow> 'i interceptor_store \<Rightarrow> 'i interceptor_store" where
  "removeInterceptor i s =
     s\<lparr>arrays := arrays s @ [filter (\<lambda>j. j \<noteq> i) (arrays s ! current s)],
       current := length (arrays s)\<rparr>"

definition clearInterceptors :: "'i interceptor_store \<Rightarrow> 'i interceptor_store" where
  "clearInterceptors s = s\<lparr>arrays := arrays s @ [[]], current := length (arrays s)\<rparr>"

text \<open>
  \<open>applyRequestInterceptors\<close> enters its loop on the array the client holds now;
  the new loop is numbered by its position in \<open>running\<close>.
\<close>

definition startChain :: "'i interceptor_store \<Rightarrow> 'i interceptor_store" where
  "startChain s = s\<lparr>running := running s @ [(current s, 0)]\<rparr>"

text \<open>One iteration of loop \<open>c\<close>: it calls the next interceptor of its array, if any.\<close>

definition stepChain :: "nat \<Rightarrow> 'i interceptor_store \<Rightarrow> 'i interceptor_store" where
  "stepChain c s =
     (if c < length (running s) then
        (case running s ! c of
           (a, n) \<Rightarrow>
             if a < length (arrays s) \<and> n < length (arrays s ! a)
             then s\<lparr>invoked := invoked s @ [(c, arrays s ! a ! n)],
                    running := (running s)[c := (a, Suc n)]\<rparr>
             else s)
      else s)"

datatype 'i store_action =
    AddInterceptor 'i
  | RemoveInterceptor 'i
  | ClearInterceptors
  | StartChain
  | StepChain nat

fun act :: "'i interceptor_store \<Rightarrow> 'i store_action \<Rightarrow> 'i interceptor_store" where
  "act s (AddInterceptor i) = addRequestInterceptor i s"
| "act s (RemoveInterceptor i) = removeInterceptor i s"
| "act s ClearInterceptors = clearInterceptors s"
| "act s StartChain = startChain s"
| "act s (StepChain c) = stepChain c s"

definition run_actions :: "'i store_action list \<Rightarrow> 'i interceptor_store \<Rightarrow> 'i interceptor_store" where
  "run_actions acts s = foldl act s acts"

text \<open>The calls logged between state \<open>s\<close> and a later state \<open>s'\<close>.\<close>

definition calls_after :: "'i interceptor_store \<Rightarrow> 'i interceptor_store \<Rightarrow> (nat \<times> 'i) list" where
  "calls_after s s' = drop (length (invoked s)) (invoked s')"

text \<open>
  The invariant behind the removal of \<open>i\<close>: \<open>n0\<close> is the address of the array the
  removal made, \<open>m0\<close> the number of loops and \<open>l0\<close> the length of the log at that
  moment. The client holds an array at or after \<open>n0\<close>, none of those arrays holds
  \<open>i\<close>, the loops numbered from \<open>m0\<close> run on them, and no logged call of such a
  loop is a call of \<open>i\<close>.
\<close>

definition clean_from :: "'i \<Rightarrow> nat \<Rightarrow> nat \<Rightarrow> nat \<Rightarrow> 'i interceptor_store \<Rightarrow> bool" where
  "clean_from i n0 m0 l0 s =
     (n0 \<le> current s \<and> current s < length (arrays s)
      \<and> (\<forall>a. n0 \<le> a \<and> a < length (arrays s) \<longrightarrow> i \<notin> set (arrays s ! a))
      \<and> m0 \<le> length (running s)
      \<and> (\<forall>c. m0 \<le> c \<and> c < length (running s) \<longrightarrow> n0 \<le> fst (running s ! c))
      \<and> l0 \<le> length (invoked s)
      \<and> (\<forall>p \<in> set (drop l0 (invoked s)). m0 \<le> fst p \<longrightarrow> snd p \<noteq> i))"

section \<open>Concrete inputs\<close>

definition ok_response :: "string \<Rightarrow> http_response" where
  "ok_response t = \<lparr>status = 200, statusText = ''OK'',
     contentType = Some ''application/json'', res_body = Body t\<rparr>"

definition not_found_response :: http_response where
  "not_found_response = \<lparr>status = 404, statusText = ''Not Found'',
     contentType = Some ''text/plain'', res_body = Body ''missing''\<rparr>"

text \<open>
  A platform whose transport answers attempt \<open>k\<close> with \<open>answers k\<close>, whose JSON
  parser accepts \<open>{}\<close> only, whose constructors never throw, and whose
  XMLHttpRequest ends in a network error.
\<close>

definition demo_platform :: "(nat \<Rightarrow> js_error + http_response) \<Rightarrow> platform" where
  "demo_platform answers = \<lparr>
     fetch = (\<lambda>k r. answers k),
     JSON_parse = (\<lambda>s. if s = ''{}'' then Inr (JObj []) else Inl ''Unexpected token''),
     JSON_stringify = (\<lambda>v. ''{}''),
     URLSearchParams_toString = (\<lambda>kvs. []),
     formData_of = (\<lambda>s. Inr []),
     url_with_params = (\<lambda>u ps. u),
     url_set_search = (\<lambda>u q. u),
     request_init_error = (\<lambda>u i. None),
     hostname_error = (\<lambda>u. None),
     xhr_setup_error = (\<lambda>u i. None),
     xhr = (\<lambda>k. OnError 0)\<rparr>"

definition failed_to_fetch :: js_error where
  "failed_to_fetch = \<lparr>cls = TypeError, message = ''Failed to fetch'',
     statusCode = None, responseData = None\<rparr>"

definition demo_client :: api_client where
  "demo_client = new_ApiClient ''https://api.example.com'' no_options"

definition demo_request :: http_request where
  "demo_request = \<lparr>req_url = ''https://api.example.com/test'', req_method = ''GET'',
     req_headers = [''Content-Type'' \<mapsto> ''application/json''], req_body = None,
     req_signal = False\<rparr>"

definition unavailable_response :: http_response where
  "unavailable_response = \<lparr>status = 503, statusText = ''Service Unavailable'',
     contentType = None, res_body = Body []\<rparr>"

definition timeout_token :: "nat cancel_token" where
  "timeout_token = fst (cancel (Some ''timeout'') new_CancelToken)"

definition get_with_retries :: "int \<Rightarrow> request_options" where
  "get_with_retries n = no_options\<lparr>http_method := Some ''GET'', retries := Some n\<rparr>"

section \<open>Properties of the cancel token\<close>

lemma cancel_makes_cancelled: "is_cancelled (fst (cancel r t))"
  by (cases r) (simp_all add: cancel_def is_cancelled_def truthy_str_def Let_def)

lemma cancel_clears_callbacks: "callbacks (fst (cancel r t)) = []"
  by (simp add: cancel_def Let_def)

text \<open>
  An observer registered on a cancelled token is called at once and not stored, so a
  cancelled token never holds a callback.
\<close>

lemma register_after_cancel:
  "is_cancelled t \<Longrightarrow> register cb t = (t, [(cb, the (reason t))])"
  by (simp add: register_def is_cancelled_def)



section \<open>Strings\<close>

lemma startsWith_set: "startsWith s sub \<Longrightarrow> set sub \<subseteq> set s"
  by (induction s sub rule: startsWith.induct) auto

lemma str_includes_set: "str_includes s sub \<Longrightarrow> set sub \<subseteq> set s"
proof (induction s)
  case Nil
  then show ?case by simp
next
  case (Cons a s)
  from Cons.prems have "startsWith (a # s) sub \<or> str_includes s sub" by simp
  then show ?case
  proof
    assume "startsWith (a # s) sub"
    then show ?thesis by (rule startsWith_set)
  next
    assume "str_includes s sub"
    then have "set sub \<subseteq> set s" by (rule Cons.IH)
    then show ?thesis by auto
  qed
qed

lemma digit_char_in: "digit_char d \<in> set ''0123456789''"
proof -
  have "d mod 10 < length ''0123456789''" by simp
  then show ?thesis unfolding digit_char_def by (rule nth_mem)
qed

lemma show_nat_digits: "set (show_nat n) \<subseteq> set ''0123456789''"
proof (induction n rule: show_nat.induct)
  case (1 n)
  show ?case
  proof (cases "n < 10")
    case True
    then show ?thesis using digit_char_in [of n] by (subst show_nat.simps) simp
  next
    case False
    then show ?thesis using 1 digit_char_in [of n] by (subst show_nat.simps) simp
  qed
qed

text \<open>
  The message of a status failure holds no letter \<open>o\<close>, so it includes neither
  \<open>timeout\<close> nor \<open>timed out\<close>.
\<close>

lemma status_message_no_o:
  "CHR ''o'' \<notin> set (''Request failed with status '' @ show_nat n)"
  using show_nat_digits [of n] by auto

lemma status_error_not_timeout: "\<not> isTimeoutError (status_error w resp)"
proof
  assume "isTimeoutError (status_error w resp)"
  then have "str_includes (''Request failed with status '' @ show_nat (status resp)) ''timeout''
     \<or> str_includes (''Request failed with status '' @ show_nat (status resp)) ''timed out''"
    by (simp add: isTimeoutError_def status_error_def new_ApiError_def)
  then have "CHR ''o'' \<in> set (''Request failed with status '' @ show_nat (status resp))"
    by (auto dest!: str_includes_set)
  then show False using status_message_no_o by blast
qed

section \<open>The three ways through \<open>request\<close>\<close>

lemma attempt_caught:
  "attempt cl w k endpoint opts = (Inl e, tr)
   \<Longrightarrow> \<exists>url. request_url cl w endpoint (mergeOptions cl opts) = Inr url
            \<and> tryBlock cl w k url (mergeOptions cl opts) = (Inl e, tr)"
  by (auto simp: attempt_def split: sum.splits)

lemma request_success:
  "attempt cl w k endpoint opts = (Inr res, tr) \<Longrightarrow> request cl w k endpoint opts = (res, tr)"
  by (subst request.simps) (auto simp: attempt_def split: sum.splits)

lemma request_terminal:
  assumes "attempt cl w k endpoint opts = (Inl e, tr)" and "\<not> will_retry cl opts e"
  shows "request cl w k endpoint opts = catch_terminal cl e tr"
proof -
  from attempt_caught [OF assms(1)] obtain url
    where "request_url cl w endpoint (mergeOptions cl opts) = Inr url"
      and "tryBlock cl w k url (mergeOptions cl opts) = (Inl e, tr)" by blast
  then show ?thesis using assms(2)
    by (subst request.simps)
       (auto simp: will_retry_def catch_terminal_def chain_result_def split: sum.splits)
qed

lemma request_retry:
  assumes "attempt cl w k endpoint opts = (Inl e, tr)" and "will_retry cl opts e"
  shows "request cl w k endpoint opts =
       (fst (request cl w (Suc k) endpoint (next_options cl opts)),
        tr @ Waited (backoff cl opts) # snd (request cl w (Suc k) endpoint (next_options cl opts)))"
proof -
  from attempt_caught [OF assms(1)] obtain url
    where "request_url cl w endpoint (mergeOptions cl opts) = Inr url"
      and "tryBlock cl w k url (mergeOptions cl opts) = (Inl e, tr)" by blast
  then show ?thesis using assms(2)
    by (subst request.simps)
       (simp add: will_retry_def retryRequest.simps next_options_def backoff_def
          split: prod.splits)
qed

lemma retries_next_options:
  "num_or_0 (retries (mergeOptions cl (next_options cl opts)))
     = num_or_0 (retries (mergeOptions cl opts)) - 1"
  by (simp add: next_options_def mergeOptions_def spread_def or_else_def num_or_0_def)

text \<open>
  Induction over the attempts of a logical request: the budget of the retry is one
  less than the budget of the call.
\<close>

lemma request_induct [case_names success terminal retry]:
  assumes success: "\<And>k opts res tr. attempt cl w k endpoint opts = (Inr res, tr) \<Longrightarrow> P k opts (res, tr)"
    and terminal: "\<And>k opts e tr. attempt cl w k endpoint opts = (Inl e, tr)
          \<Longrightarrow> \<not> will_retry cl opts e \<Longrightarrow> P k opts (catch_terminal cl e tr)"
    and retry: "\<And>k opts e tr res tr'. attempt cl w k endpoint opts = (Inl e, tr)
          \<Longrightarrow> will_retry cl opts e
          \<Longrightarrow> request cl w (Suc k) endpoint (next_options cl opts) = (res, tr')
          \<Longrightarrow> P (Suc k) (next_options cl opts) (res, tr')
          \<Longrightarrow> P k opts (res, tr @ Waited (backoff cl opts) # tr')"
  shows "P k opts (request cl w k endpoint opts)"
proof (induction "nat (num_or_0 (retries (mergeOptions cl opts)))" arbitrary: k opts rule: less_induct)
  case less
  obtain r tr where a: "attempt cl w k endpoint opts = (r, tr)"
    by (cases "attempt cl w k endpoint opts")
  show ?case
  proof (cases r)
    case (Inr res)
    with a success request_success show ?thesis by simp
  next
    case (Inl e)
    show ?thesis
    proof (cases "will_retry cl opts e")
      case False
      with a Inl terminal request_terminal show ?thesis by simp
    next
      case True
      then have pos: "num_or_0 (retries (mergeOptions cl opts)) > 0" by (simp add: will_retry_def)
      have "nat (num_or_0 (retries (mergeOptions cl (next_options cl opts))))
              < nat (num_or_0 (retries (mergeOptions cl opts)))"
        using pos by (simp add: retries_next_options)
      then have ih: "P (Suc k) (next_options cl opts)
                       (request cl w (Suc k) endpoint (next_options cl opts))"
        by (rule less)
      obtain res tr' where n: "request cl w (Suc k) endpoint (next_options cl opts) = (res, tr')"
        by (cases "request cl w (Suc k) endpoint (next_options cl opts)")
      from a Inl have a': "attempt cl w k endpoint opts = (Inl e, tr)" by simp
      have "P k opts (res, tr @ Waited (backoff cl opts) # tr')"
        using retry [OF a' True n] ih n by simp
      then show ?thesis using request_retry [OF a' True] n by simp
    qed
  qed
qed

text \<open>Unfolding the model on concrete inputs.\<close>

lemmas pipeline_defs = get_def get_options_def request.simps retryRequest.simps attempt_def
  tryBlock_def mergeOptions_def spread_def or_else_def no_options_def new_ApiClient_def
  builtin_defaults_def request_url_def buildUrlWithParams_def resolveUrl_def endsWith_def
  cancel_check_def xhr_path_def before_fetch_def new_Request_def applyRequestInterceptors_def
  do_fetch_def fetchWithTimeout_def after_fetch_def applyResponseInterceptors_def
  check_status_def decode_body_def read_switch_def num_or_0_def shouldRetry_def codes_include_def
  truthy_nat_def truthy_str_def truthy_int_def headers_or_empty_def default_validateStatus_def
  applyErrorInterceptors_def as_Error_def adjustedDelay_def retry_delay_def pow2_def
  demo_platform_def ok_response_def failed_to_fetch_def instanceof_Error_def demo_client_def
  demo_request_def throwIfRequested_def new_ApiError_def new_Error_def isTimeoutError_def
  status_error_def errorData_def not_found_response_def unavailable_response_def
  requestWithXHR_def xhr_settled_def parse_error_def processing_error_def get_with_retries_def
  catch_terminal_def chain_result_def show_nat.simps digit_char_def

section \<open>Retry classification of status failures\<close>

text \<open>
  C8. A status failure is the ApiError that status validation throws for a response.
  When its status is in 400..499 and not in \<open>retryStatusCodes\<close>, \<open>shouldRetry\<close>
  rejects it, and a request whose attempt ends in it goes straight to the rest of the
  \<open>catch\<close> clause, whatever the retry budget: no wait, no further attempt. A status
  in 500..599 is accepted by \<open>shouldRetry\<close> for every list of codes.
\<close>

theorem status_failure_classification:
  "(400 \<le> status resp \<and> status resp < 500 \<and> \<not> codes_include codes (status resp)
      \<longrightarrow> \<not> shouldRetry (status_error w resp) codes)
   \<and> (attempt cl w k endpoint opts = (Inl (status_error w resp), tr)
        \<and> 400 \<le> status resp \<and> status resp < 500
        \<and> \<not> codes_include (retryStatusCodes (mergeOptions cl opts)) (status resp)
      \<longrightarrow> request cl w k endpoint opts = catch_terminal cl (status_error w resp) tr)
   \<and> (500 \<le> status resp' \<and> status resp' < 600
      \<longrightarrow> shouldRetry (status_error w' resp') codes')"
proof -
  have terminal: "\<not> shouldRetry (status_error w resp) cs"
    if "400 \<le> status resp \<and> status resp < 500 \<and> \<not> codes_include cs (status resp)" for cs
    using that status_error_not_timeout [of w resp]
    by (simp add: shouldRetry_def status_error_def new_ApiError_def truthy_nat_def)
  have "request cl w k endpoint opts = catch_terminal cl (status_error w resp) tr"
    if a: "attempt cl w k endpoint opts = (Inl (status_error w resp), tr)"
      and r: "400 \<le> status resp \<and> status resp < 500
              \<and> \<not> codes_include (retryStatusCodes (mergeOptions cl opts)) (status resp)"
  proof -
    have "\<not> will_retry cl opts (status_error w resp)"
      using terminal [OF r] by (simp add: will_retry_def)
    with a show ?thesis by (rule request_terminal)
  qed
  moreover have "shouldRetry (status_error w' resp') codes'"
    if "500 \<le> status resp' \<and> status resp' < 600"
    using that by (simp add: shouldRetry_def status_error_def new_ApiError_def truthy_nat_def)
  ultimately show ?thesis using terminal by blast
qed

text \<open>
  C8 at a concrete request: a GET with a budget of 3 retries that is answered 404
  ends after one transport call, and a 503 is retryable with an empty list of codes.
\<close>

theorem status_failure_classification_witness:
  "attempt demo_client (demo_platform (\<lambda>k. Inr not_found_response)) 0 ''/test'' (get_with_retries 3)
     = (Inl (status_error (demo_platform (\<lambda>k. Inr not_found_response)) not_found_response),
        [Dispatched demo_request])
   \<and> 400 \<le> status not_found_response \<and> status not_found_response < 500
   \<and> \<not> codes_include (retryStatusCodes (mergeOptions demo_client (get_with_retries 3)))
         (status not_found_response)
   \<and> \<not> shouldRetry (status_error (demo_platform (\<lambda>k. Inr not_found_response)) not_found_response)
         (retryStatusCodes (mergeOptions demo_client (get_with_retries 3)))
   \<and> snd (request demo_client (demo_platform (\<lambda>k. Inr not_found_response)) 0 ''/test''
            (get_with_retries 3))
       = [Dispatched demo_request,
          ErrorChain (status_error (demo_platform (\<lambda>k. Inr not_found_response)) not_found_response)]
   \<and> 500 \<le> status unavailable_response \<and> status unavailable_response < 600
   \<and> shouldRetry (status_error (demo_platform (\<lambda>k. Inr not_found_response)) unavailable_response)
        (Some [])"
proof -
  let ?w = "demo_platform (\<lambda>k. Inr not_found_response)"
  have a: "attempt demo_client ?w 0 ''/test'' (get_with_retries 3)
     = (Inl (status_error ?w not_found_response), [Dispatched demo_request])"
    by (simp add: pipeline_defs)
  have b: "400 \<le> status not_found_response \<and> status not_found_response < 500"
    by (simp add: not_found_response_def)
  have c: "\<not> codes_include (retryStatusCodes (mergeOptions demo_client (get_with_retries 3)))
         (status not_found_response)"
    by (simp add: pipeline_defs)
  have d: "500 \<le> status unavailable_response \<and> status unavailable_response < 600"
    by (simp add: unavailable_response_def)
  have e: "as_Error (status_error ?w not_found_response) = status_error ?w not_found_response"
    by (simp add: as_Error_def instanceof_Error_def status_error_def new_ApiError_def)
  from status_failure_classification [of not_found_response
      "retryStatusCodes (mergeOptions demo_client (get_with_retries 3))" ?w demo_client 0
      "''/test''" "get_with_retries 3" "[Dispatched demo_request]" unavailable_response ?w "Some []"]
    a b c d
  have "\<not> shouldRetry (status_error ?w not_found_response)
            (retryStatusCodes (mergeOptions demo_client (get_with_retries 3)))"
    and "request demo_client ?w 0 ''/test'' (get_with_retries 3)
           = catch_terminal demo_client (status_error ?w not_found_response) [Dispatched demo_request]"
    and "shouldRetry (status_error ?w unavailable_response) (Some [])"
    by blast+
  then show ?thesis using a b c d by (simp add: catch_terminal_def e)
qed

section \<open>The error interceptor chain\<close>

lemma attempt_no_chain: "error_chain_runs (snd (attempt cl w k endpoint opts)) = 0"
  by (simp add: attempt_def tryBlock_def error_chain_runs_def split: sum.splits)

lemma final_attempt_returned:
  "attempt cl w k endpoint opts = (Inr res, tr)
   \<Longrightarrow> final_attempt cl w k endpoint opts = (Inr res, opts)"
  by (subst final_attempt.simps) simp

lemma final_attempt_terminal:
  "attempt cl w k endpoint opts = (Inl e, tr) \<Longrightarrow> \<not> will_retry cl opts e
   \<Longrightarrow> final_attempt cl w k endpoint opts = (Inl e, opts)"
  by (subst final_attempt.simps) simp

lemma final_attempt_retry:
  "attempt cl w k endpoint opts = (Inl e, tr) \<Longrightarrow> will_retry cl opts e
   \<Longrightarrow> final_attempt cl w k endpoint opts
       = final_attempt cl w (Suc k) endpoint (next_options cl opts)"
  by (subst final_attempt.simps) simp

lemma chain_on_last_attempt_retry:
  assumes ih: "chain_on_last_attempt cl fin (res, tr')" and z: "error_chain_runs tr = 0"
  shows "chain_on_last_attempt cl fin (res, tr @ Waited d # tr')"
proof (cases fin)
  case (Pair outcome last_opts)
  show ?thesis
  proof (cases outcome)
    case (Inr returned)
    then show ?thesis using ih z Pair
      by (simp add: chain_on_last_attempt_def error_chain_runs_def)
  next
    case (Inl e)
    then have one: "error_chain_runs tr' = 1" and l: "last tr' = ErrorChain (as_Error e)"
      using ih Pair by (simp_all add: chain_on_last_attempt_def)
    from one have "tr' \<noteq> []" by (auto simp: error_chain_runs_def)
    then have "last (tr @ Waited d # tr') = last tr'" by simp
    then show ?thesis using ih z Pair Inl one l
      by (simp add: chain_on_last_attempt_def error_chain_runs_def)
  qed
qed

lemma request_chain_on_last_attempt:
  "chain_on_last_attempt cl (final_attempt cl w k endpoint opts) (request cl w k endpoint opts)"
proof (induction k opts rule: request_induct [where cl = cl and w = w and endpoint = endpoint])
  case (success k opts res tr)
  have "error_chain_runs tr = 0"
    using attempt_no_chain [of cl w k endpoint opts] success by simp
  then show ?case
    by (simp add: final_attempt_returned [OF success] chain_on_last_attempt_def)
next
  case (terminal k opts e tr)
  have "error_chain_runs tr = 0"
    using attempt_no_chain [of cl w k endpoint opts] terminal by simp
  then show ?case using terminal(2)
    by (simp add: final_attempt_terminal [OF terminal] chain_on_last_attempt_def
        catch_terminal_def error_chain_runs_def)
next
  case (retry k opts e tr res tr')
  have z: "error_chain_runs tr = 0"
    using attempt_no_chain [of cl w k endpoint opts] retry by simp
  have "chain_on_last_attempt cl (final_attempt cl w (Suc k) endpoint (next_options cl opts))
          (res, tr @ Waited (backoff cl opts) # tr')"
    using retry(4) z by (rule chain_on_last_attempt_retry)
  then show ?case by (simp add: final_attempt_retry [OF retry(1,2)])
qed

lemma request_on_xhr_path:
  assumes "xhr_path (mergeOptions cl opts)" and "cancel_check (mergeOptions cl opts) = Inr ()"
    and "request_url cl w endpoint (mergeOptions cl opts) = Inr url"
  shows "request cl w k endpoint opts
           = (requestWithXHR w k url (mergeOptions cl opts), [XhrSent url])"
  using assms by (subst request.simps) (simp add: tryBlock_def)

text \<open>
  C9, as amended. For every logical request and every budget, the error interceptor
  chain runs only in the \<open>catch\<close> clause of the last attempt. If the last attempt
  threw an error into the clause (the budget was used up or the error was classified
  non-retryable), the chain runs exactly once, as the last event of the request, on
  that error, and the request ends with what the chain returned or threw; no attempt
  that is followed by a retry runs it. If the call ended without entering the clause
  (a success, a serializer that threw before the \<open>try\<close> block, or the promise of the
  XMLHttpRequest path), the chain never runs. A request that passes the cancellation
  check and is handed to the XMLHttpRequest path ends with that promise after one call
  on that path: its failures are returned without a retry and without the chain.
\<close>

theorem error_chain_once:
  "chain_on_last_attempt cl (final_attempt cl w k endpoint opts) (request cl w k endpoint opts)
   \<and> (xhr_path (mergeOptions cl' opts') \<and> cancel_check (mergeOptions cl' opts') = Inr ()
        \<and> request_url cl' w' endpoint' (mergeOptions cl' opts') = Inr url
      \<longrightarrow> request cl' w' k' endpoint' opts'
            = (requestWithXHR w' k' url (mergeOptions cl' opts'), [XhrSent url]))"
  using request_chain_on_last_attempt [of cl w k endpoint opts]
    request_on_xhr_path [of cl' opts' w' endpoint' url k']
  by blast

text \<open>
  C9 at two concrete requests. A GET with a budget of 2 whose transport always fails
  with a TypeError: the last attempt is the third, with no budget left; the request
  makes three transport calls and two waits and runs the error chain once, last, on
  the TypeError. The same GET with \<open>useXMLHttpRequest\<close> and a download observer,
  whose XMLHttpRequest ends in a network error: one call on that path, no wait, no
  run of the chain.
\<close>

theorem error_chain_once_witness:
  "final_attempt demo_client (demo_platform (\<lambda>k. Inl failed_to_fetch)) 0 ''/test''
       (get_with_retries 2)
     = (Inl failed_to_fetch, get_with_retries 0)
   \<and> \<not> will_retry demo_client (get_with_retries 0) failed_to_fetch
   \<and> request demo_client (demo_platform (\<lambda>k. Inl failed_to_fetch)) 0 ''/test'' (get_with_retries 2)
       = (Inr (Some failed_to_fetch, JNull),
          [Dispatched demo_request, Waited 250, Dispatched demo_request, Waited 500,
           Dispatched demo_request, ErrorChain failed_to_fetch])
   \<and> chain_on_last_attempt demo_client (Inl failed_to_fetch, get_with_retries 0)
        (request demo_client (demo_platform (\<lambda>k. Inl failed_to_fetch)) 0 ''/test''
           (get_with_retries 2))
   \<and> xhr_path (mergeOptions demo_client
         ((get_with_retries 2)\<lparr>useXMLHttpRequest := Some True, onDownloadProgress := Some ()\<rparr>))
   \<and> cancel_check (mergeOptions demo_client
         ((get_with_retries 2)\<lparr>useXMLHttpRequest := Some True, onDownloadProgress := Some ()\<rparr>))
       = Inr ()
   \<and> request_url demo_client (demo_platform (\<lambda>k. Inl failed_to_fetch)) ''/test''
        (mergeOptions demo_client
           ((get_with_retries 2)\<lparr>useXMLHttpRequest := Some True, onDownloadProgress := Some ()\<rparr>))
       = Inr ''https://api.example.com/test''
   \<and> request demo_client (demo_platform (\<lambda>k. Inl failed_to_fetch)) 0 ''/test''
        ((get_with_retries 2)\<lparr>useXMLHttpRequest := Some True, onDownloadProgress := Some ()\<rparr>)
       = (Inr (Some (new_ApiError ''Network error occurred'' (Some 0) None), JNull),
          [XhrSent ''https://api.example.com/test''])"
proof -
  let ?w = "demo_platform (\<lambda>k. Inl failed_to_fetch)"
  let ?x = "(get_with_retries 2)\<lparr>useXMLHttpRequest := Some True, onDownloadProgress := Some ()\<rparr>"
  have f: "final_attempt demo_client ?w 0 ''/test'' (get_with_retries 2)
             = (Inl failed_to_fetch, get_with_retries 0)"
    by (simp add: final_attempt.simps will_retry_def next_options_def pipeline_defs)
  have r: "request demo_client ?w 0 ''/test'' (get_with_retries 2)
       = (Inr (Some failed_to_fetch, JNull),
          [Dispatched demo_request, Waited 250, Dispatched demo_request, Waited 500,
           Dispatched demo_request, ErrorChain failed_to_fetch])"
    by (simp add: pipeline_defs)
  have a: "xhr_path (mergeOptions demo_client ?x)" by (simp add: pipeline_defs)
  have b: "cancel_check (mergeOptions demo_client ?x) = Inr ()" by (simp add: pipeline_defs)
  have c: "request_url demo_client ?w ''/test'' (mergeOptions demo_client ?x)
             = Inr ''https://api.example.com/test''"
    by (simp add: pipeline_defs)
  have x: "requestWithXHR ?w 0 ''https://api.example.com/test'' (mergeOptions demo_client ?x)
             = Inr (Some (new_ApiError ''Network error occurred'' (Some 0) None), JNull)"
    by (simp add: pipeline_defs)
  from error_chain_once [of demo_client ?w 0 "''/test''" "get_with_retries 2"
      demo_client ?x ?w "''/test''" "''https://api.example.com/test''" 0] a b c
  have l: "chain_on_last_attempt demo_client
             (final_attempt demo_client ?w 0 ''/test'' (get_with_retries 2))
             (request demo_client ?w 0 ''/test'' (get_with_retries 2))"
    and p: "request demo_client ?w 0 ''/test'' ?x
              = (requestWithXHR ?w 0 ''https://api.example.com/test'' (mergeOptions demo_client ?x),
                 [XhrSent ''https://api.example.com/test''])"
    by blast+
  from l have n: "\<not> will_retry demo_client (get_with_retries 0) failed_to_fetch"
    unfolding f by (simp add: chain_on_last_attempt_def)
  from l have l': "chain_on_last_attempt demo_client (Inl failed_to_fetch, get_with_retries 0)
             (request demo_client ?w 0 ''/test'' (get_with_retries 2))"
    unfolding f .
  show ?thesis using f n r l' a b c p x by simp
qed

text \<open>
  C9 as stated fails on the XMLHttpRequest path: with \<open>useXMLHttpRequest\<close> and a
  download progress observer, a request whose XMLHttpRequest ends in a network error
  returns that error and the error interceptor chain never runs.
\<close>

theorem xhr_failure_skips_error_chain:
  "get demo_client (demo_platform (\<lambda>k. Inr (ok_response ''{}''))) ''/test''
         (no_options\<lparr>useXMLHttpRequest := Some True, onDownloadProgress := Some ()\<rparr>)
     = (Inr (Some (new_ApiError ''Network error occurred'' (Some 0) None), JNull),
        [XhrSent ''https://api.example.com/test''])
   \<and> error_chain_runs [XhrSent ''https://api.example.com/test''] = 0
   \<and> \<not> failed_with_one_run
          (get demo_client (demo_platform (\<lambda>k. Inr (ok_response ''{}''))) ''/test''
             (no_options\<lparr>useXMLHttpRequest := Some True, onDownloadProgress := Some ()\<rparr>))"
  by (simp add: pipeline_defs error_chain_runs_def failed_with_one_run_def)

section \<open>The two slots of the returned tuple\<close>

lemma merge_next:
  "mergeOptions cl (next_options cl opts)
     = (mergeOptions cl opts)\<lparr>retries := Some (num_or_0 (retries (mergeOptions cl opts)) - 1)\<rparr>"
  by (simp add: next_options_def mergeOptions_def spread_def or_else_def)

text \<open>The budget has no part in what a transport answers or in how an answer is read.\<close>

lemma xhr_onload_retries:
  "xhr_onload w (mo\<lparr>retries := x\<rparr>) st responseText response
     = xhr_onload w mo st responseText response"
  by (simp add: xhr_onload_def cong: sum.case_cong if_cong option.case_cong)

lemma do_fetch_retries: "do_fetch w k (mo\<lparr>retries := x\<rparr>) r = do_fetch w k mo r"
  by (simp add: do_fetch_def fetchWithProgressTracking_def
      cong: sum.case_cong if_cong option.case_cong)

lemma after_fetch_retries:
  "after_fetch cl w (mo\<lparr>retries := x\<rparr>) response0 = after_fetch cl w mo response0"
  by (simp add: after_fetch_def check_status_def cong: sum.case_cong if_cong option.case_cong)

lemma xhr_path_retries: "xhr_path (mo\<lparr>retries := x\<rparr>) = xhr_path mo"
  by (simp add: xhr_path_def)

lemma success_with_retries:
  "success_with cl w (mo\<lparr>retries := x\<rparr>) d = success_with cl w mo d"
  unfolding success_with_def
  by (simp only: xhr_path_retries xhr_onload_retries do_fetch_retries after_fetch_retries)

lemma xhr_onload_slots:
  "xhr_onload w mo st responseText response = (e, d) \<Longrightarrow> e \<noteq> None \<Longrightarrow> d = JNull"
  by (auto simp: xhr_onload_def split: sum.splits if_splits)

lemma xhr_tuple:
  assumes x: "xhr_path mo" and r: "requestWithXHR w k url mo = Inr t"
  shows "(fst t \<noteq> None \<and> snd t = JNull) \<or> (fst t = None \<and> success_with cl w mo (snd t))"
proof -
  from r have t: "t = xhr_settled w k mo"
    by (auto simp: requestWithXHR_def split: option.splits)
  show ?thesis
  proof (cases "xhr w k")
    case (OnLoad st responseText response)
    then have o: "xhr_onload w mo st responseText response = (fst t, snd t)"
      using t by (simp add: xhr_settled_def)
    show ?thesis
    proof (cases "fst t")
      case None
      then have "success_with cl w mo (snd t)"
        using x o OnLoad by (auto simp: success_with_def)
      with None show ?thesis by simp
    next
      case (Some e)
      then show ?thesis using xhr_onload_slots [OF o] by simp
    qed
  next
    case (OnError st)
    then show ?thesis using t by (simp add: xhr_settled_def)
  next
    case (OnTimeout st)
    then show ?thesis using t by (simp add: xhr_settled_def)
  next
    case OnCancel
    then show ?thesis using t by (simp add: xhr_settled_def)
  qed
qed

lemma attempt_tuple:
  assumes a: "attempt cl w k endpoint opts = (Inr (Inr t), tr)"
  shows "(fst t \<noteq> None \<and> snd t = JNull)
         \<or> (fst t = None \<and> success_with cl w (mergeOptions cl opts) (snd t))"
proof -
  from a obtain url where b: "tryBlock cl w k url (mergeOptions cl opts) = (Inr (Inr t), tr)"
    by (auto simp: attempt_def split: sum.splits)
  show ?thesis
  proof (cases "xhr_path (mergeOptions cl opts)")
    case True
    with b have "requestWithXHR w k url (mergeOptions cl opts) = Inr t"
      by (auto simp: tryBlock_def split: sum.splits)
    with True show ?thesis by (rule xhr_tuple)
  next
    case False
    with b obtain r response0 where "do_fetch w k (mergeOptions cl opts) r = Inr response0"
      and "after_fetch cl w (mergeOptions cl opts) response0 = Inr (snd t)" and "fst t = None"
      by (auto simp: tryBlock_def split: sum.splits)
    then show ?thesis using False by (auto simp: success_with_def)
  qed
qed

lemma request_tuple:
  "\<forall>t. fst (request cl w k endpoint opts) = Inr t
     \<longrightarrow> (fst t \<noteq> None \<and> snd t = JNull)
         \<or> (fst t = None \<and> success_with cl w (mergeOptions cl opts) (snd t))"
proof (induction k opts rule: request_induct [where cl = cl and w = w and endpoint = endpoint])
  case (success k opts res tr)
  then show ?case using attempt_tuple [of cl w k endpoint opts _ tr] by auto
next
  case (terminal k opts e tr)
  then show ?case by (auto simp: catch_terminal_def chain_result_def split: sum.splits)
next
  case (retry k opts e tr res tr')
  then show ?case by (simp add: merge_next success_with_retries)
qed

lemma invoke_request:
  "invoke cl w call = request cl w 0 (invocation_endpoint call) (invocation_options w call)"
  by (cases call)
     (simp_all add: invocation_options_def get_def post_def put_def patch_def delete_def
        head_def options_def postForm_def postUrlEncoded_def)

text \<open>
  C1, as amended. Whenever one of the nine operations returns a tuple, on any input,
  the tuple is of one of two kinds. Either it holds an error and \<open>null\<close> data:
  exactly one slot is populated. Or it holds no error and the data of a success (the
  decoded body of an answer that passed status validation): exactly one slot is
  populated unless that data is \<open>null\<close>. So both slots are never populated, and
  both are \<open>null\<close> only for a success whose body decodes to \<open>null\<close>.
\<close>

theorem returned_tuple_slots:
  assumes "fst (invoke cl w call) = Inr t"
  shows "(fst t \<noteq> None \<and> snd t = JNull \<and> exactly_one_populated t)
       \<or> (fst t = None \<and> success_with cl w (merged_options cl w call) (snd t)
          \<and> (exactly_one_populated t \<or> snd t = JNull))"
proof -
  from assms have "fst (request cl w 0 (invocation_endpoint call) (invocation_options w call))
                     = Inr t"
    by (simp add: invoke_request)
  then have "(fst t \<noteq> None \<and> snd t = JNull)
         \<or> (fst t = None \<and> success_with cl w (merged_options cl w call) (snd t))"
    unfolding merged_options_def
    using request_tuple [of cl w 0 "invocation_endpoint call" "invocation_options w call"]
    by blast
  then show ?thesis by (auto simp: exactly_one_populated_def)
qed

text \<open>
  C1 at two concrete calls: a GET answered 404 returns the status error and \<open>null\<close>
  data; a GET answered 200 with the body \<open>{}\<close> returns no error and the parsed
  object. Each has exactly one slot populated.
\<close>

theorem returned_tuple_slots_witness:
  "fst (invoke demo_client (demo_platform (\<lambda>k. Inr not_found_response)) (Get ''/test'' no_options))
     = Inr (Some (status_error (demo_platform (\<lambda>k. Inr not_found_response)) not_found_response),
            JNull)
   \<and> exactly_one_populated
        (Some (status_error (demo_platform (\<lambda>k. Inr not_found_response)) not_found_response),
         JNull)
   \<and> fst (invoke demo_client (demo_platform (\<lambda>k. Inr (ok_response ''{}'')))
            (Get ''/test'' no_options))
       = Inr (None, JObj [])
   \<and> success_with demo_client (demo_platform (\<lambda>k. Inr (ok_response ''{}'')))
        (merged_options demo_client (demo_platform (\<lambda>k. Inr (ok_response ''{}'')))
           (Get ''/test'' no_options))
        (JObj [])
   \<and> exactly_one_populated (None, JObj [])"
proof -
  let ?w4 = "demo_platform (\<lambda>k. Inr not_found_response)"
  let ?w2 = "demo_platform (\<lambda>k. Inr (ok_response ''{}''))"
  have a: "fst (invoke demo_client ?w4 (Get ''/test'' no_options))
             = Inr (Some (status_error ?w4 not_found_response), JNull)"
    by (simp add: pipeline_defs)
  have b: "fst (invoke demo_client ?w2 (Get ''/test'' no_options)) = Inr (None, JObj [])"
    by (simp add: pipeline_defs)
  from returned_tuple_slots [OF a]
  have c: "exactly_one_populated (Some (status_error ?w4 not_found_response), JNull)" by simp
  from returned_tuple_slots [OF b]
  have d: "success_with demo_client ?w2 (merged_options demo_client ?w2 (Get ''/test'' no_options))
             (JObj [])"
    and e: "exactly_one_populated (None, JObj [])" by simp_all
  show ?thesis using a b c d e by simp
qed

text \<open>
  C1 as stated fails: a GET under the default response type \<open>json\<close> that is
  answered with status 200 and an empty body returns \<open>[null, null]\<close>.
\<close>

theorem empty_json_body_both_null:
  "fst (invoke demo_client (demo_platform (\<lambda>k. Inr (ok_response ''''))) (Get ''/test'' no_options))
     = Inr (None, JNull)
   \<and> \<not> exactly_one_populated (None, JNull)"
  by (simp add: pipeline_defs exactly_one_populated_def)

section \<open>The verb field and the options spread after it\<close>









section \<open>The backoff delay\<close>

text \<open>
  The wait before a retry: the exponent is the client's default budget minus the
  budget left, whatever budget the call itself configured.
\<close>

lemma backoff_exponent:
  "backoff cl opts
     = of_int (retry_delay cl opts)
       * pow2 (num_or_0 (retries (defaultOptions cl)) - num_or_0 (retries (mergeOptions cl opts)))"
  by (simp add: backoff_def adjustedDelay_def)

lemma backoff_default_budget:
  "retries opts = None \<Longrightarrow> backoff cl opts = of_int (retry_delay cl opts)"
  by (simp add: backoff_exponent mergeOptions_def spread_def or_else_def pow2_def)

text \<open>
  C2 fails on the code. A client with the built-in defaults (budget 0, delay 1000) and
  a call \<open>get("/test", {retries: 1})\<close> whose first transport call fails with a
  TypeError: the code waits \<open>1000 * 2^(0 - 1) = 500\<close> before the retry, where the
  claim has \<open>1000 * 2^0 = 1000\<close> for the wait after the first attempt.
\<close>

theorem per_call_budget_backoff:
  "snd (get demo_client
         (demo_platform (\<lambda>k. if k = 0 then Inl failed_to_fetch else Inr (ok_response ''{}'')))
         ''/test'' (no_options\<lparr>retries := Some 1\<rparr>))
     = [Dispatched demo_request, Waited 500, Dispatched demo_request]
   \<and> spec_backoff 1000 0 = 1000"
  by (simp add: pipeline_defs spec_backoff_def)

section \<open>Decoding a json body\<close>

lemma decode_empty_json: "res_body resp = Body [] \<Longrightarrow> decode_body w RT_json resp = Inr JNull"
  by (simp add: decode_body_def read_switch_def)

text \<open>Every error of the decoding step has lost its \<open>responseData\<close>.\<close>

lemma decode_failure_without_data: "decode_body w rt resp = Inl e \<Longrightarrow> responseData e = None"
  by (auto simp: decode_body_def processing_error_def new_ApiError_def split: sum.splits)

text \<open>
  C5 fails on the code. A GET under response type \<open>json\<close> answered with status 200
  and the body \<open>oops\<close>, which the parser rejects: the error built with the raw text
  is caught by the outer \<open>catch\<close> and replaced, so the returned error has no
  \<open>responseData\<close> and its message holds the parser's message only.
\<close>

theorem malformed_json_loses_raw_text:
  "fst (get demo_client (demo_platform (\<lambda>k. Inr (ok_response ''oops''))) ''/test'' no_options)
     = Inr (Some \<lparr>cls = ApiError,
               message = ''Failed to process response: Failed to parse JSON response: Unexpected token'',
               statusCode = Some 200, responseData = None\<rparr>, JNull)"
  by (simp add: pipeline_defs)

section \<open>A token cancelled before the call\<close>

lemma precancelled_attempt:
  assumes "cancelToken (mergeOptions cl opts) = Some tok" and "throwIfRequested tok = Inl e"
    and "request_url cl w endpoint (mergeOptions cl opts) = Inr url"
  shows "attempt cl w k endpoint opts = (Inl e, [])"
  using assms by (simp add: attempt_def tryBlock_def cancel_check_def)

lemma precancelled_attempt_events:
  assumes "cancelToken (mergeOptions cl opts) = Some tok" and "throwIfRequested tok = Inl e"
  shows "snd (attempt cl w k endpoint opts) = []"
  using assms by (simp add: attempt_def tryBlock_def cancel_check_def split: sum.splits)

lemma cancelToken_next:
  "cancelToken (mergeOptions cl (next_options cl opts)) = cancelToken (mergeOptions cl opts)"
  by (simp add: next_options_def mergeOptions_def spread_def)

text \<open>No transport is reached, whatever the budget and the reason.\<close>

lemma precancelled_no_transport:
  assumes c: "cancelToken (mergeOptions cl opts) = Some tok" and t: "throwIfRequested tok = Inl e"
  shows "\<not> list_ex is_transport (snd (request cl w k endpoint opts))"
proof -
  have "cancelToken (mergeOptions cl opts) = Some tok
        \<longrightarrow> \<not> list_ex is_transport (snd (request cl w k endpoint opts))"
  proof (induction k opts rule: request_induct [where cl = cl and w = w and endpoint = endpoint])
    case (success k opts r tr)
    then show ?case using precancelled_attempt_events [OF _ t, of cl opts w k endpoint] by auto
  next
    case (terminal k opts e' tr)
    then show ?case using precancelled_attempt_events [OF _ t, of cl opts w k endpoint]
      by (auto simp: catch_terminal_def)
  next
    case (retry k opts e' tr res tr')
    then show ?case using precancelled_attempt_events [OF _ t, of cl opts w k endpoint]
      by (auto simp: cancelToken_next)
  qed
  with c show ?thesis by simp
qed

text \<open>
  The cancellation error is terminal when the url was built and the reason includes
  neither \<open>timeout\<close> nor \<open>timed out\<close>.
\<close>

lemma precancelled_terminal:
  assumes c: "cancelToken (mergeOptions cl opts) = Some tok" and t: "throwIfRequested tok = Inl e"
    and u: "request_url cl w endpoint (mergeOptions cl opts) = Inr url"
    and r: "\<not> isTimeoutError e"
  shows "request cl w k endpoint opts = catch_terminal cl e []"
proof -
  from t have "cls e = ApiError" and "statusCode e = None"
    by (auto simp: throwIfRequested_def new_ApiError_def split: if_splits)
  then have "\<not> will_retry cl opts e"
    using r by (simp add: will_retry_def shouldRetry_def truthy_nat_def)
  with precancelled_attempt [OF c t u] show ?thesis by (rule request_terminal)
qed

text \<open>
  C7 fails on the code. A token cancelled with the reason \<open>timeout\<close> before a GET
  with a budget of 1: no transport call is made, but the ApiError of
  \<open>throwIfRequested\<close> has the message \<open>Request canceled: timeout\<close>, which
  \<open>isTimeoutError\<close> accepts, so \<open>shouldRetry\<close> holds and the request waits and
  re-enters the pipeline before it returns the cancellation error.
\<close>

theorem precancelled_timeout_reason_retried:
  "is_cancelled timeout_token
   \<and> shouldRetry (new_ApiError ''Request canceled: timeout'' None (Some (JStr ''timeout''))) None
   \<and> get demo_client (demo_platform (\<lambda>k. Inr (ok_response ''{}''))) ''/test''
         (no_options\<lparr>cancelToken := Some timeout_token, retries := Some 1\<rparr>)
     = (Inr (Some (new_ApiError ''Request canceled: timeout'' None (Some (JStr ''timeout''))), JNull),
        [Waited 500,
         ErrorChain (new_ApiError ''Request canceled: timeout'' None (Some (JStr ''timeout'')))])"
  by (simp add: pipeline_defs timeout_token_def cancel_def new_CancelToken_def is_cancelled_def)

section \<open>\<open>all\<close>\<close>

lemma first_throw_none_caught:
  "first_throw rs = None \<Longrightarrow> list_all (\<lambda>r. fst (caught r) = None) rs
   \<Longrightarrow> filter (\<lambda>t. fst t \<noteq> None) (map caught rs) = []"
  by (induction rs rule: first_throw.induct) auto

text \<open>No failure: the data of every tuple, in the order of the list, and no error.\<close>

lemma all_no_failure:
  assumes "first_throw rs = None" and "list_all (\<lambda>r. fst (caught r) = None) rs"
  shows "all rs = (None, JArr (map (\<lambda>r. snd (caught r)) rs))"
  using assms first_throw_none_caught [OF assms]
  by (simp add: all_def Let_def comp_def)

lemma first_throw_append:
  "first_throw (xs @ ys) = (case first_throw xs of None \<Rightarrow> first_throw ys | Some e \<Rightarrow> Some e)"
  by (induction xs rule: first_throw.induct) auto

text \<open>One failure: its own error.\<close>

lemma all_single_failure:
  assumes "first_throw (xs @ r # ys) = None"
    and "list_all (\<lambda>r. fst (caught r) = None) xs" and "list_all (\<lambda>r. fst (caught r) = None) ys"
    and "fst (caught r) = Some e"
  shows "all (xs @ r # ys) = (Some e, JNull)"
proof -
  from assms(1) have x: "first_throw xs = None" and y: "first_throw ys = None"
    by (auto simp: first_throw_append split: option.splits) (cases r; simp)+
  have "filter (\<lambda>t. fst t \<noteq> None) (map caught (xs @ r # ys)) = [caught r]"
    using first_throw_none_caught [OF x assms(2)] first_throw_none_caught [OF y assms(3)] assms(4)
    by simp
  then show ?thesis using assms(1,4) by (simp add: all_def Let_def)
qed

text \<open>
  C3 fails on the code. Three requests of which the first succeeds and the second and
  third fail with the messages \<open>A\<close> and \<open>B\<close>: the aggregate message numbers the
  failures 0 and 1, their positions among the failures, where the claim has their
  indices 1 and 2 in the input list.
\<close>

theorem aggregate_indices_renumbered:
  "all [Resolves (None, JNum 1), Resolves (Some (new_Error ''A''), JNull),
        Resolves (Some (new_Error ''B''), JNull)]
     = (Some (new_ApiError ''Multiple requests failed: Request 0: A; Request 1: B'' None None),
        JNull)
   \<and> map fst (indexed_failures
                 [(None, JNum 1), (Some (new_Error ''A''), JNull), (Some (new_Error ''B''), JNull)])
       = [1, 2]"
  by (simp add: all_def combinedMessage_def error_line_def new_Error_def new_ApiError_def
      show_nat.simps digit_char_def upt_rec indexed_failures_def)

section \<open>Removing an interceptor\<close>

lemma clean_after_remove:
  "clean_from i (length (arrays s)) (length (running s)) (length (invoked s))
     (removeInterceptor i s)"
  by (auto simp: clean_from_def removeInterceptor_def nth_append)

lemma clean_add:
  "j \<noteq> i \<Longrightarrow> clean_from i n0 m0 l0 s \<Longrightarrow> clean_from i n0 m0 l0 (addRequestInterceptor j s)"
  by (auto simp: clean_from_def addRequestInterceptor_def nth_list_update)

lemma clean_remove: "clean_from i n0 m0 l0 s \<Longrightarrow> clean_from i n0 m0 l0 (removeInterceptor j s)"
  by (auto simp: clean_from_def removeInterceptor_def nth_append)

lemma clean_clear: "clean_from i n0 m0 l0 s \<Longrightarrow> clean_from i n0 m0 l0 (clearInterceptors s)"
  by (auto simp: clean_from_def clearInterceptors_def nth_append)

lemma clean_start: "clean_from i n0 m0 l0 s \<Longrightarrow> clean_from i n0 m0 l0 (startChain s)"
  by (auto simp: clean_from_def startChain_def nth_append)

lemma clean_step:
  assumes inv: "clean_from i n0 m0 l0 s"
  shows "clean_from i n0 m0 l0 (stepChain c s)"
proof (cases "c < length (running s)")
  case False
  then show ?thesis using inv by (simp add: stepChain_def)
next
  case True
  obtain a n where an: "running s ! c = (a, n)" by (cases "running s ! c")
  show ?thesis
  proof (cases "a < length (arrays s) \<and> n < length (arrays s ! a)")
    case False
    then show ?thesis using inv True an by (auto simp: stepChain_def)
  next
    case ok: True
    have eq: "stepChain c s = s\<lparr>invoked := invoked s @ [(c, arrays s ! a ! n)],
                  running := (running s)[c := (a, Suc n)]\<rparr>"
      using True an ok by (simp add: stepChain_def)
    have new: "arrays s ! a ! n \<noteq> i" if "m0 \<le> c"
    proof -
      have "n0 \<le> a" using that inv True an by (auto simp: clean_from_def)
      then have "i \<notin> set (arrays s ! a)" using inv ok by (auto simp: clean_from_def)
      moreover have "arrays s ! a ! n \<in> set (arrays s ! a)" using ok by simp
      ultimately show ?thesis by metis
    qed
    have run: "n0 \<le> fst ((running s)[c := (a, Suc n)] ! ca)"
      if "m0 \<le> ca" "ca < length (running s)" for ca
    proof (cases "ca = c")
      case True
      then have "n0 \<le> fst (running s ! c)" using that inv by (simp add: clean_from_def)
      then show ?thesis using True that an by simp
    next
      case False
      then show ?thesis using that inv by (simp add: clean_from_def)
    qed
    show ?thesis unfolding eq using inv new run
      by (auto simp: clean_from_def)
  qed
qed

lemma clean_act:
  "a \<noteq> AddInterceptor i \<Longrightarrow> clean_from i n0 m0 l0 s \<Longrightarrow> clean_from i n0 m0 l0 (act s a)"
  by (cases a) (auto intro: clean_add clean_remove clean_clear clean_start clean_step)

lemma clean_run:
  "AddInterceptor i \<notin> set acts \<Longrightarrow> clean_from i n0 m0 l0 s
   \<Longrightarrow> clean_from i n0 m0 l0 (run_actions acts s)"
  unfolding run_actions_def
proof (induction acts arbitrary: s)
  case Nil
  then show ?case by simp
next
  case (Cons a acts)
  then show ?case using clean_act [of a i n0 m0 l0 s] by auto
qed

text \<open>
  C6. After the function returned at the registration of \<open>i\<close> has run, and as long
  as \<open>i\<close> is not registered again, no loop over the interceptors that starts later
  calls \<open>i\<close>, whatever is added, removed, cleared, started or stepped in between: of
  the calls logged after the removal, those of loops numbered from the number of loops
  at the removal are not calls of \<open>i\<close>. This covers a request that was in flight
  at the removal and enters its loop afterwards.
\<close>

theorem removed_interceptor_not_invoked:
  assumes "AddInterceptor i \<notin> set acts"
  shows "\<forall>p \<in> set (calls_after s (run_actions acts (removeInterceptor i s))).
           length (running s) \<le> fst p \<longrightarrow> snd p \<noteq> i"
  using clean_run [OF assms clean_after_remove [of i s]]
  by (simp add: clean_from_def calls_after_def)

text \<open>
  C6 at a concrete run. Interceptors 1 and 2 are registered and loop 0 has called 1
  when 2 is removed. Loop 1 starts after the removal and calls 1 only; loop 0, which
  was suspended inside the old array, still calls 2.
\<close>

theorem removed_interceptor_not_invoked_witness:
  "AddInterceptor (2::nat) \<notin> set [StartChain, StepChain 0, StepChain 1, StepChain 1, StepChain 0]
   \<and> length (running (run_actions [AddInterceptor 1, AddInterceptor 2, StartChain, StepChain 0]
                        (new_store :: nat interceptor_store))) = 1
   \<and> calls_after
        (run_actions [AddInterceptor 1, AddInterceptor 2, StartChain, StepChain 0]
           (new_store :: nat interceptor_store))
        (run_actions [StartChain, StepChain 0, StepChain 1, StepChain 1, StepChain 0]
           (removeInterceptor 2
              (run_actions [AddInterceptor 1, AddInterceptor 2, StartChain, StepChain 0]
                 new_store)))
       = [(0, 2), (1, 1)]
   \<and> snd ((1::nat), (1::nat)) \<noteq> 2"
proof -
  let ?s = "run_actions [AddInterceptor 1, AddInterceptor 2, StartChain, StepChain 0]
              (new_store :: nat interceptor_store)"
  let ?acts = "[StartChain, StepChain 0, StepChain 1, StepChain 1, StepChain 0] :: nat store_action list"
  have a: "AddInterceptor (2::nat) \<notin> set ?acts" by simp
  have s: "?s = \<lparr>arrays = [[1, 2]], current = 0, running = [(0, 1)], invoked = [(0, 1)]\<rparr>"
    by (simp add: run_actions_def new_store_def addRequestInterceptor_def startChain_def
        stepChain_def)
  have c: "calls_after ?s (run_actions ?acts (removeInterceptor 2 ?s)) = [(0, 2), (1, 1)]"
    unfolding s
    by (simp add: run_actions_def removeInterceptor_def startChain_def stepChain_def
        calls_after_def)
  have l: "length (running ?s) = 1" unfolding s by simp
  from removed_interceptor_not_invoked [OF a, of ?s] c l
  have "snd ((1::nat), (1::nat)) \<noteq> 2" by simp
  then show ?thesis using a c l by simp
qed

end
